theory Spec2Isabelle
  imports Main
begin

section \<open>The shared counter store\<close>

text \<open>
  The rate limiter and the brute-force guard of \<^verbatim>\<open>fastapi_basic/app\<close> talk to a Redis
  server through \<^verbatim>\<open>redis.asyncio\<close>. The server is not code of the repository: its
  commands are modelled here as functions on an explicit store, executed at an explicit
  clock reading \<open>now\<close> (milliseconds). The source functions built on the commands
  (\<^verbatim>\<open>_incr_with_ttl\<close>, \<^verbatim>\<open>limiter\<close>, \<^verbatim>\<open>ensure_not_locked\<close>, \<^verbatim>\<open>register_failure\<close>,
  \<^verbatim>\<open>clear_state\<close>) are translated from the source.
\<close>

text \<open>A stored string either encodes an integer or it does not.\<close>

datatype rvalue = Num int | Raw string

record entry =
  content :: rvalue
  expire_at :: "int option"

type_synonym redis = "string \<Rightarrow> entry option"

datatype redis_error = NotAnInteger | InvalidExpire

text \<open>
  Modelled from the spec: the expiry of a key of the counter store (section 4.1: a key
  has an integer count and a per-key expiry). An entry whose expiry instant has been
  reached is gone for every command; \<open>expire_at = None\<close> is a key with no TTL.
\<close>

definition lookup :: "redis \<Rightarrow> int \<Rightarrow> string \<Rightarrow> entry option" where
  "lookup r now k =
     (case r k of
        None \<Rightarrow> None
      | Some e \<Rightarrow>
          (case expire_at e of
             None \<Rightarrow> Some e
           | Some t \<Rightarrow> if now < t then Some e else None))"

text \<open>
  Modelled from the spec: the store's command INCR (section 4.1: increments the integer at
  the key, creating it at 1 if absent). The store keeps 64-bit signed integers; a value
  that is no integer, or an increment past the largest one, is an error reply. The
  key's expiry is left as it is.
\<close>

definition INCR :: "redis \<Rightarrow> int \<Rightarrow> string \<Rightarrow> redis_error + (redis \<times> int)" where
  "INCR r now k =
     (case lookup r now k of
        None \<Rightarrow> Inr (r(k \<mapsto> \<lparr>content = Num 1, expire_at = None\<rparr>), 1)
      | Some e \<Rightarrow>
          (case content e of
             Raw s \<Rightarrow> Inl NotAnInteger
           | Num n \<Rightarrow>
               if n < - (2 ^ 63) \<or> 2 ^ 63 - 1 \<le> n then Inl NotAnInteger
               else Inr (r(k \<mapsto> e\<lparr>content := Num (n + 1)\<rparr>), n + 1)))"

text \<open>
  Modelled from the spec: the store's command EXPIRE (section 4.1: sets the key's expiry
  to a number of seconds from now). The reply is 1 when the key exists, 0 otherwise.
\<close>

definition EXPIRE :: "redis \<Rightarrow> int \<Rightarrow> string \<Rightarrow> int \<Rightarrow> redis \<times> int" where
  "EXPIRE r now k secs =
     (case lookup r now k of
        None \<Rightarrow> (r, 0)
      | Some e \<Rightarrow> (r(k \<mapsto> e\<lparr>expire_at := Some (now + secs * 1000)\<rparr>), 1))"

text \<open>
  Modelled from the spec: the store's command TTL (section 4.1: \<open>remainingTTL\<close> returns
  the seconds until expiry, or a sentinel for no TTL or an absent key; the source's
  docstring names the sentinels -1 and -2). The remaining milliseconds are rounded to
  the nearest second, so a key about to expire reports 0.
\<close>

definition TTL :: "redis \<Rightarrow> int \<Rightarrow> string \<Rightarrow> int" where
  "TTL r now k =
     (case lookup r now k of
        None \<Rightarrow> - 2
      | Some e \<Rightarrow>
          (case expire_at e of
             None \<Rightarrow> - 1
           | Some t \<Rightarrow> (t - now + 500) div 1000))"

text \<open>Modelled from the spec: the store's command EXISTS for one key (section 4.1).\<close>

definition EXISTS :: "redis \<Rightarrow> int \<Rightarrow> string \<Rightarrow> int" where
  "EXISTS r now k = (case lookup r now k of None \<Rightarrow> 0 | Some e \<Rightarrow> 1)"

text \<open>
  Modelled from the spec: the store's command SET with the option EX (section 4.1:
  \<open>setIfLockedForm\<close> sets a presence marker with an expiry, unconditionally
  overwriting). An expiry that is not positive is an error reply.
\<close>

definition SET_EX :: "redis \<Rightarrow> int \<Rightarrow> string \<Rightarrow> rvalue \<Rightarrow> int \<Rightarrow> redis_error + redis" where
  "SET_EX r now k v secs =
     (if secs \<le> 0 then Inl InvalidExpire
      else Inr (r(k \<mapsto> \<lparr>content = v, expire_at = Some (now + secs * 1000)\<rparr>)))"

text \<open>Modelled from the spec: the store's command DEL (section 4.1: \<open>delete(keys...)\<close>).\<close>

fun DEL :: "redis \<Rightarrow> string list \<Rightarrow> redis" where
  "DEL r [] = r"
| "DEL r (k # ks) = DEL (r(k := None)) ks"

subsection \<open>The atomic counter primitive\<close>

text \<open>
  \<^verbatim>\<open>_incr_with_ttl\<close> of \<^verbatim>\<open>rate_limit.py\<close> and of \<^verbatim>\<open>bruteforce.py\<close> (the two copies are the
  same): the Lua script
  \<^verbatim>\<open>local current = redis.call('INCR', KEYS[1])
  if current == 1 then redis.call('EXPIRE', KEYS[1], ARGV[1]) end
  return current\<close>
  run by the store as one command, at one clock reading. An error reply of INCR aborts
  the script and is raised to the caller.
\<close>

definition incr_with_ttl :: "redis \<Rightarrow> int \<Rightarrow> string \<Rightarrow> int \<Rightarrow> redis_error + (redis \<times> int)" where
  "incr_with_ttl r now key ttl_seconds =
     (case INCR r now key of
        Inl e \<Rightarrow> Inl e
      | Inr (r1, current) \<Rightarrow>
          if current = 1 then Inr (fst (EXPIRE r1 now key ttl_seconds), current)
          else Inr (r1, current))"

section \<open>Python values and exceptions\<close>

text \<open>
  \<^verbatim>\<open>str(n)\<close> of a Python integer, as the f-strings and \<^verbatim>\<open>str(...)\<close> calls of the source
  use it: decimal digits, with a leading minus sign for a negative number.
\<close>

definition digit_char :: "nat \<Rightarrow> char" where
  "digit_char d =
     (if d = 0 then CHR ''0'' else if d = 1 then CHR ''1'' else if d = 2 then CHR ''2''
      else if d = 3 then CHR ''3'' else if d = 4 then CHR ''4'' else if d = 5 then CHR ''5''
      else if d = 6 then CHR ''6'' else if d = 7 then CHR ''7'' else if d = 8 then CHR ''8''
      else CHR ''9'')"

fun digits :: "nat \<Rightarrow> string" where
  "digits n = (if n < 10 then [digit_char n] else digits (n div 10) @ [digit_char (n mod 10)])"

declare digits.simps [simp del]

definition str_int :: "int \<Rightarrow> string" where
  "str_int i = (if i < 0 then CHR ''-'' # digits (nat (- i)) else digits (nat i))"

text \<open>
  The exceptions a handler can end with. \<open>HTTPException\<close> carries the status code, the
  detail and the headers (no headers is the empty list); the others are exceptions the
  source does not catch, raised by the store's client, the token library, the database
  session and its driver, or Python itself.
\<close>

datatype exn =
    HTTPException int string "(string \<times> string) list"
  | ResponseError redis_error
  | JWTError
  | JWTClaimsError
  | ExpiredSignatureError
  | TypeError
  | ValueError
  | KeyError
  | MultipleResultsFound
  | IntegrityError
  | DBAPIError

section \<open>The rate limiter (rate\_limit.py)\<close>

text \<open>
  Of a request the limiter reads the client's host only; \<open>client = None\<close> is
  \<^verbatim>\<open>request.client is None\<close>.
\<close>

record request =
  client :: "string option"

definition client_ip :: "request \<Rightarrow> string" where
  "client_ip req = (case client req of None \<Rightarrow> ''unknown'' | Some host \<Rightarrow> host)"

record RateLimit =
  key_prefix :: string
  limit :: int
  window_seconds :: int

text \<open>
  The dependency \<^verbatim>\<open>_dep\<close> that \<^verbatim>\<open>limiter(config, key_fn=...)\<close> returns. It awaits the store
  twice: the counter script runs at the clock reading \<open>t_incr\<close>, the TTL read of the
  rejecting branch at \<open>t_ttl\<close>. The result is the store afterwards and either the
  exception raised or \<^verbatim>\<open>None\<close>.
\<close>

definition limiter ::
  "RateLimit \<Rightarrow> (request \<Rightarrow> string) option \<Rightarrow> request \<Rightarrow> redis \<Rightarrow> int \<Rightarrow> int \<Rightarrow> redis \<times> (exn + unit)" where
  "limiter config key_fn req r t_incr t_ttl =
     (let ident = (case key_fn of Some f \<Rightarrow> f req | None \<Rightarrow> client_ip req);
          key = ''rl:'' @ key_prefix config @ '':'' @ ident
      in case incr_with_ttl r t_incr key (window_seconds config) of
           Inl e \<Rightarrow> (r, Inl (ResponseError e))
         | Inr (r1, current) \<Rightarrow>
             if current > limit config then
               (let retry_after = TTL r1 t_ttl key
                in (r1, Inl (HTTPException 429
                      (''Rate limit exceeded: '' @ str_int (limit config) @ ''/''
                         @ str_int (window_seconds config) @ ''s'')
                      [(''Retry-After'', str_int (max retry_after 1))])))
             else (r1, Inr ()))"

text \<open>
  A sequence of requests through the same dependency, one pair of clock readings per
  request; an exception ends its own request only.
\<close>

fun limiter_calls ::
  "RateLimit \<Rightarrow> (request \<Rightarrow> string) option \<Rightarrow> request \<Rightarrow> redis \<Rightarrow> (int \<times> int) list
     \<Rightarrow> redis \<times> (exn + unit) list" where
  "limiter_calls config key_fn req r [] = (r, [])"
| "limiter_calls config key_fn req r ((t_incr, t_ttl) # ts) =
     (case limiter config key_fn req r t_incr t_ttl of
        (r1, res) \<Rightarrow>
          (case limiter_calls config key_fn req r1 ts of
             (r2, rs) \<Rightarrow> (r2, res # rs)))"

section \<open>The brute-force guard (bruteforce.py)\<close>

text \<open>
  The configuration's fields \<^verbatim>\<open>key_prefix\<close> and \<^verbatim>\<open>window_seconds\<close> carry the prefix
  \<open>bf_\<close> here, the rate limit's fields having the same names.
\<close>

record BruteForceConfig =
  bf_key_prefix :: string
  max_failures :: int
  bf_window_seconds :: int
  lock_seconds :: int

definition fail_key :: "BruteForceConfig \<Rightarrow> string \<Rightarrow> string \<Rightarrow> string" where
  "fail_key cfg username ip = ''bf:'' @ bf_key_prefix cfg @ '':fail:'' @ username @ '':'' @ ip"

definition lock_key :: "BruteForceConfig \<Rightarrow> string \<Rightarrow> string \<Rightarrow> string" where
  "lock_key cfg username ip = ''bf:'' @ bf_key_prefix cfg @ '':lock:'' @ username @ '':'' @ ip"

text \<open>
  \<^verbatim>\<open>ensure_not_locked\<close>: EXISTS at the clock reading \<open>t_exists\<close>, then, when the lock
  is there, TTL at \<open>t_ttl\<close>. The store is only read.
\<close>

definition ensure_not_locked ::
  "redis \<Rightarrow> BruteForceConfig \<Rightarrow> string \<Rightarrow> string \<Rightarrow> int \<Rightarrow> int \<Rightarrow> exn + unit" where
  "ensure_not_locked r cfg username ip t_exists t_ttl =
     (let lk = lock_key cfg username ip;
          is_locked = EXISTS r t_exists lk
      in if is_locked \<noteq> 0 then
           (let retry_after = TTL r t_ttl lk
            in Inl (HTTPException 429 ''Too many login attempts. Try again later.''
                 [(''Retry-After'', str_int (max retry_after 1))]))
         else Inr ())"

text \<open>
  \<^verbatim>\<open>register_failure\<close>: the counter script at \<open>t_incr\<close>, then, at the threshold, the SET
  of the lock key (value \<^verbatim>\<open>"1"\<close>) at \<open>t_set\<close>.
\<close>

definition register_failure ::
  "redis \<Rightarrow> BruteForceConfig \<Rightarrow> string \<Rightarrow> string \<Rightarrow> int \<Rightarrow> int \<Rightarrow> redis \<times> (exn + int)" where
  "register_failure r cfg username ip t_incr t_set =
     (let fk = fail_key cfg username ip
      in case incr_with_ttl r t_incr fk (bf_window_seconds cfg) of
           Inl e \<Rightarrow> (r, Inl (ResponseError e))
         | Inr (r1, current) \<Rightarrow>
             if current \<ge> max_failures cfg then
               (let lk = lock_key cfg username ip
                in case SET_EX r1 t_set lk (Num 1) (lock_seconds cfg) of
                     Inl e \<Rightarrow> (r1, Inl (ResponseError e))
                   | Inr r2 \<Rightarrow> (r2, Inr current))
             else (r1, Inr current))"

definition clear_state :: "redis \<Rightarrow> BruteForceConfig \<Rightarrow> string \<Rightarrow> string \<Rightarrow> redis" where
  "clear_state r cfg username ip = DEL r [fail_key cfg username ip, lock_key cfg username ip]"

text \<open>A sequence of failed logins of the same user from the same address.\<close>

fun register_failures ::
  "redis \<Rightarrow> BruteForceConfig \<Rightarrow> string \<Rightarrow> string \<Rightarrow> (int \<times> int) list \<Rightarrow> redis \<times> (exn + int) list" where
  "register_failures r cfg username ip [] = (r, [])"
| "register_failures r cfg username ip ((t_incr, t_set) # ts) =
     (case register_failure r cfg username ip t_incr t_set of
        (r1, res) \<Rightarrow>
          (case register_failures r1 cfg username ip ts of
             (r2, rs) \<Rightarrow> (r2, res # rs)))"

section \<open>Tokens (security.py)\<close>

text \<open>
  A token's payload is the Python dictionary of its claims, in the order the source
  writes them; \<^verbatim>\<open>claims.get(k)\<close> is \<open>map_of claims k\<close>. The values the source stores
  are strings and integers.
\<close>

datatype jval = JStr string | JInt int

type_synonym claims = "(string \<times> jval) list"

text \<open>
  Modelled from the spec: the signed token format and the library calls \<^verbatim>\<open>jwt.encode\<close>
  and \<^verbatim>\<open>jwt.decode\<close> of python-jose, which are not code of the repository (section 6: a
  compact signed structure under a symmetric key; section 4.4: \<open>verify\<close> checks the
  signature and \<open>exp\<close>, fails with \<open>InvalidToken\<close> on a bad signature or a malformed
  payload and with \<open>ExpiredToken\<close> on an expired \<open>exp\<close>). A token is either the
  payload together with the key and the algorithm that signed it, or a string that is no
  token. The library reads the clock in whole seconds and takes a token for expired once
  the clock is past \<open>exp\<close>.
\<close>

datatype token = Signed claims string string | Malformed string

definition jwt_encode :: "claims \<Rightarrow> string \<Rightarrow> string \<Rightarrow> token" where
  "jwt_encode payload key algorithm = Signed payload key algorithm"

definition jwt_decode :: "token \<Rightarrow> string \<Rightarrow> string list \<Rightarrow> int \<Rightarrow> exn + claims" where
  "jwt_decode tok key algorithms now =
     (case tok of
        Malformed s \<Rightarrow> Inl JWTError
      | Signed payload k alg \<Rightarrow>
          if k \<noteq> key \<or> alg \<notin> set algorithms then Inl JWTError
          else
            (case map_of payload ''exp'' of
               None \<Rightarrow> Inr payload
             | Some (JStr s) \<Rightarrow> Inl JWTClaimsError
             | Some (JInt e) \<Rightarrow> if e < now then Inl ExpiredSignatureError else Inr payload))"

text \<open>
  The module's settings, read from the environment when it is loaded: any string and any
  two integers. \<^verbatim>\<open>JWT_ALG\<close> is fixed.
\<close>

record settings =
  JWT_SECRET :: string
  ACCESS_MIN :: int
  REFRESH_DAYS :: int

definition JWT_ALG :: string where
  "JWT_ALG = ''HS256''"

text \<open>
  \<^verbatim>\<open>create_access_token\<close> and \<^verbatim>\<open>create_refresh_token\<close>. The clock reading \<open>now\<close> of
  \<^verbatim>\<open>_utcnow()\<close> is in whole seconds (the source truncates both timestamps with \<^verbatim>\<open>int\<close>),
  and the fresh identifier of \<^verbatim>\<open>uuid.uuid4()\<close> is the argument \<open>new_jti\<close>. The second
  component of \<open>create_refresh_token\<close> is the expiry \<^verbatim>\<open>exp_dt\<close>, in seconds.
\<close>

definition create_access_token :: "settings \<Rightarrow> int \<Rightarrow> string \<Rightarrow> int \<Rightarrow> string \<Rightarrow> token" where
  "create_access_token cfg now new_jti user_id role =
     jwt_encode
       [(''type'', JStr ''access''),
        (''sub'', JStr (str_int user_id)),
        (''role'', JStr role),
        (''iat'', JInt now),
        (''exp'', JInt (now + 60 * ACCESS_MIN cfg)),
        (''jti'', JStr new_jti)]
       (JWT_SECRET cfg) JWT_ALG"

definition create_refresh_token :: "settings \<Rightarrow> int \<Rightarrow> string \<Rightarrow> int \<Rightarrow> token \<times> int" where
  "create_refresh_token cfg now new_jti user_id =
     (let exp_dt = now + 86400 * REFRESH_DAYS cfg
      in (jwt_encode
            [(''type'', JStr ''refresh''),
             (''sub'', JStr (str_int user_id)),
             (''iat'', JInt now),
             (''exp'', JInt exp_dt),
             (''jti'', JStr new_jti)]
            (JWT_SECRET cfg) JWT_ALG,
          exp_dt))"

definition decode_token :: "settings \<Rightarrow> int \<Rightarrow> token \<Rightarrow> exn + claims" where
  "decode_token cfg now tok = jwt_decode tok (JWT_SECRET cfg) [JWT_ALG] now"

subsection \<open>Reading the subject back\<close>

text \<open>
  \<^verbatim>\<open>int(claims.get("sub"))\<close>: \<^verbatim>\<open>int(None)\<close> is a TypeError, an integer is itself, and a
  string is parsed as Python parses a decimal literal: surrounding white space is
  dropped, one sign may lead, and single underscores may stand between digits
  (ASCII only).
\<close>

definition is_space :: "char \<Rightarrow> bool" where
  "is_space c =
     (c \<in> set [CHR '' '', CHR 0x09, CHR 0x0A, CHR 0x0B, CHR 0x0C, CHR 0x0D,
                CHR 0x1C, CHR 0x1D, CHR 0x1E, CHR 0x1F])"

definition strip :: "string \<Rightarrow> string" where
  "strip s = rev (dropWhile is_space (rev (dropWhile is_space s)))"

definition digit_val :: "char \<Rightarrow> nat option" where
  "digit_val =
     map_of [(CHR ''0'', 0), (CHR ''1'', 1), (CHR ''2'', 2), (CHR ''3'', 3), (CHR ''4'', 4),
             (CHR ''5'', 5), (CHR ''6'', 6), (CHR ''7'', 7), (CHR ''8'', 8), (CHR ''9'', 9)]"

fun parse_digits :: "nat \<Rightarrow> string \<Rightarrow> nat option" where
  "parse_digits acc [] = None"
| "parse_digits acc [c] =
     (case digit_val c of None \<Rightarrow> None | Some d \<Rightarrow> Some (10 * acc + d))"
| "parse_digits acc (c # c' # cs) =
     (case digit_val c of
        None \<Rightarrow> None
      | Some d \<Rightarrow>
          if c' = CHR ''_'' then parse_digits (10 * acc + d) cs
          else parse_digits (10 * acc + d) (c' # cs))"

definition int_of_str :: "string \<Rightarrow> exn + int" where
  "int_of_str s =
     (case strip s of
        [] \<Rightarrow> Inl ValueError
      | c # cs \<Rightarrow>
          if c = CHR ''-'' then
            (case parse_digits 0 cs of None \<Rightarrow> Inl ValueError | Some n \<Rightarrow> Inr (- int n))
          else if c = CHR ''+'' then
            (case parse_digits 0 cs of None \<Rightarrow> Inl ValueError | Some n \<Rightarrow> Inr (int n))
          else
            (case parse_digits 0 (c # cs) of None \<Rightarrow> Inl ValueError | Some n \<Rightarrow> Inr (int n)))"

definition py_int :: "jval option \<Rightarrow> exn + int" where
  "py_int v =
     (case v of
        None \<Rightarrow> Inl TypeError
      | Some (JInt n) \<Rightarrow> Inr n
      | Some (JStr s) \<Rightarrow> int_of_str s)"

section \<open>The persistent store (models.py)\<close>

text \<open>
  The two tables the authentication routes use, as the lists of their rows. The primary
  key of \<^verbatim>\<open>UserORM\<close> is the field \<open>id'\<close>. A refresh token's row is found and updated
  through its unique column \<^verbatim>\<open>jti\<close>; its surrogate key, which the routes never read, is
  left out, and \<^verbatim>\<open>expires_at\<close> is in seconds. The column \<^verbatim>\<open>jti\<close> holds strings: the
  driver refuses an integer for it (\<open>DBAPIError\<close>), and a comparison with \<^verbatim>\<open>None\<close>
  finds no row.
\<close>

record UserORM =
  id' :: int
  username :: string
  password_hash :: string
  role :: string

record RefreshTokenORM =
  jti :: string
  user_id :: int
  expires_at :: int
  revoked :: bool

record db =
  users :: "UserORM list"
  refresh_tokens :: "RefreshTokenORM list"

text \<open>The result method \<^verbatim>\<open>scalar_one_or_none\<close> on the rows a SELECT has found.\<close>

definition scalar_one_or_none :: "'a list \<Rightarrow> exn + 'a option" where
  "scalar_one_or_none rows =
     (case rows of
        [] \<Rightarrow> Inr None
      | [x] \<Rightarrow> Inr (Some x)
      | x # y # zs \<Rightarrow> Inl MultipleResultsFound)"

text \<open>
  \<^verbatim>\<open>db.add(RefreshTokenORM(...))\<close> followed by \<^verbatim>\<open>db.commit()\<close>: the INSERT fails on the
  unique index of \<^verbatim>\<open>jti\<close> and on the foreign key to \<^verbatim>\<open>users.id\<close>.
\<close>

definition add_refresh_token :: "db \<Rightarrow> RefreshTokenORM \<Rightarrow> exn + db" where
  "add_refresh_token d row =
     (if jti row \<in> set (map jti (refresh_tokens d)) \<or> user_id row \<notin> set (map id' (users d))
      then Inl IntegrityError
      else Inr (d\<lparr>refresh_tokens := refresh_tokens d @ [row]\<rparr>))"

text \<open>
  \<^verbatim>\<open>rt.revoked = True\<close> followed by \<^verbatim>\<open>db.commit()\<close>, for the row \<open>rt\<close> a SELECT by
  \<^verbatim>\<open>jti\<close> has returned: the UPDATE of that row.
\<close>

definition revoke_row :: "db \<Rightarrow> RefreshTokenORM \<Rightarrow> db" where
  "revoke_row d rt =
     d\<lparr>refresh_tokens :=
         map (\<lambda>row. if jti row = jti rt then row\<lparr>revoked := True\<rparr> else row) (refresh_tokens d)\<rparr>"

section \<open>The authentication routes (routes/auth.py)\<close>

datatype TokenPair = TokenPair token token string

text \<open>
  \<^verbatim>\<open>login\<close>. The password check \<^verbatim>\<open>verify_password\<close> (passlib's bcrypt context) is a
  parameter; \<open>jti_access\<close> and \<open>jti_refresh\<close> are the identifiers the two tokens draw.
  The handler reads the clock at \<open>now\<close>. The result is the store afterwards and either
  the exception raised or the response.
\<close>

definition login ::
  "settings \<Rightarrow> (string \<Rightarrow> string \<Rightarrow> bool) \<Rightarrow> int \<Rightarrow> string \<Rightarrow> string \<Rightarrow> string \<Rightarrow> string \<Rightarrow> db
     \<Rightarrow> db \<times> (exn + TokenPair)" where
  "login cfg verify_password now jti_access jti_refresh form_username form_password d =
     (case scalar_one_or_none (filter (\<lambda>u. username u = form_username) (users d)) of
        Inl e \<Rightarrow> (d, Inl e)
      | Inr None \<Rightarrow> (d, Inl (HTTPException 401 ''Invalid credentials'' []))
      | Inr (Some user) \<Rightarrow>
          if \<not> verify_password form_password (password_hash user)
          then (d, Inl (HTTPException 401 ''Invalid credentials'' []))
          else
            (let access = create_access_token cfg now jti_access (id' user) (role user);
                 (refresh, refresh_exp) = create_refresh_token cfg now jti_refresh (id' user)
             in case decode_token cfg now refresh of
                  Inl e \<Rightarrow> (d, Inl e)
                | Inr refresh_claims \<Rightarrow>
                    (case map_of refresh_claims ''jti'' of
                       None \<Rightarrow> (d, Inl KeyError)
                     | Some (JInt n) \<Rightarrow> (d, Inl DBAPIError)
                     | Some (JStr j) \<Rightarrow>
                         (case add_refresh_token d
                                 \<lparr>jti = j, user_id = id' user, expires_at = refresh_exp,
                                  revoked = False\<rparr> of
                            Inl e \<Rightarrow> (d, Inl e)
                          | Inr d1 \<Rightarrow> (d1, Inr (TokenPair access refresh ''bearer''))))))"

text \<open>
  \<^verbatim>\<open>refresh_token\<close>, in the two parts its awaits cut it into. The first part runs up
  to the check of the row the SELECT by \<^verbatim>\<open>jti\<close> has found (lines 74 to 91); it returns
  that row and the user id \<open>uid\<close> read from the token (the source's local
  \<^verbatim>\<open>user_id\<close>), and writes nothing. The second part
  (lines 93 to 116) revokes the row, commits, looks the user up, mints the new pair and
  stores the new refresh token's row. The handler reads the clock at \<open>now\<close>;
  \<open>jti_access\<close> and \<open>jti_refresh\<close> are the identifiers the new tokens draw.
\<close>

definition refresh_token_lookup :: "settings \<Rightarrow> int \<Rightarrow> token \<Rightarrow> db \<Rightarrow> exn + (RefreshTokenORM \<times> int)" where
  "refresh_token_lookup cfg now tok d =
     (case decode_token cfg now tok of
        Inl e \<Rightarrow> Inl (HTTPException 401 ''Invalid or expired refresh token'' [])
      | Inr claims \<Rightarrow>
          if map_of claims ''type'' \<noteq> Some (JStr ''refresh'')
          then Inl (HTTPException 401 ''Not a refresh token'' [])
          else
            (case py_int (map_of claims ''sub'') of
               Inl e \<Rightarrow> Inl e
             | Inr uid \<Rightarrow>
                 (case map_of claims ''jti'' of
                    Some (JInt n) \<Rightarrow> Inl DBAPIError
                  | None \<Rightarrow> Inl (HTTPException 401 ''Refresh token revoked or unknown'' [])
                  | Some (JStr j) \<Rightarrow>
                      (case scalar_one_or_none (filter (\<lambda>row. jti row = j) (refresh_tokens d)) of
                         Inl e \<Rightarrow> Inl e
                       | Inr None \<Rightarrow>
                           Inl (HTTPException 401 ''Refresh token revoked or unknown'' [])
                       | Inr (Some rt) \<Rightarrow>
                           if revoked rt
                           then Inl (HTTPException 401 ''Refresh token revoked or unknown'' [])
                           else Inr (rt, uid)))))"

definition refresh_token_rotate ::
  "settings \<Rightarrow> int \<Rightarrow> string \<Rightarrow> string \<Rightarrow> RefreshTokenORM \<Rightarrow> int \<Rightarrow> db \<Rightarrow> db \<times> (exn + TokenPair)" where
  "refresh_token_rotate cfg now jti_access jti_refresh rt uid d =
     (let d1 = revoke_row d rt
      in case scalar_one_or_none (filter (\<lambda>u. id' u = uid) (users d1)) of
           Inl e \<Rightarrow> (d1, Inl e)
         | Inr None \<Rightarrow> (d1, Inl (HTTPException 401 ''User not found'' []))
         | Inr (Some user) \<Rightarrow>
             (let access = create_access_token cfg now jti_access (id' user) (role user);
                  (new_refresh, new_refresh_exp) =
                     create_refresh_token cfg now jti_refresh (id' user)
              in case decode_token cfg now new_refresh of
                   Inl e \<Rightarrow> (d1, Inl e)
                 | Inr new_claims \<Rightarrow>
                     (case map_of new_claims ''jti'' of
                        None \<Rightarrow> (d1, Inl KeyError)
                      | Some (JInt n) \<Rightarrow> (d1, Inl DBAPIError)
                      | Some (JStr j) \<Rightarrow>
                          (case add_refresh_token d1
                                  \<lparr>jti = j, user_id = id' user, expires_at = new_refresh_exp,
                                   revoked = False\<rparr> of
                             Inl e \<Rightarrow> (d1, Inl e)
                           | Inr d2 \<Rightarrow> (d2, Inr (TokenPair access new_refresh ''bearer''))))))"

definition refresh_token ::
  "settings \<Rightarrow> int \<Rightarrow> string \<Rightarrow> string \<Rightarrow> token \<Rightarrow> db \<Rightarrow> db \<times> (exn + TokenPair)" where
  "refresh_token cfg now jti_access jti_refresh tok d =
     (case refresh_token_lookup cfg now tok d of
        Inl e \<Rightarrow> (d, Inl e)
      | Inr (rt, uid) \<Rightarrow> refresh_token_rotate cfg now jti_access jti_refresh rt uid d)"

section \<open>Example data\<close>

text \<open>
  The data of the worked examples below: the guard's configuration \<^verbatim>\<open>CFG\<close> of
  \<^verbatim>\<open>routes/bf_demo.py\<close>, the default settings of \<^verbatim>\<open>security.py\<close>, the
  user of the specification's end-to-end scenario, a password check that accepts exactly
  the hash \<open>hash-of-<password>\<close>, and a refresh token issued to that user at the clock
  reading 1000000 together with its row.
\<close>

definition ex_bf_config :: BruteForceConfig where
  "ex_bf_config =
     \<lparr>bf_key_prefix = ''login-sim'', max_failures = 5, bf_window_seconds = 120, lock_seconds = 60\<rparr>"

definition ex_settings :: settings where
  "ex_settings = \<lparr>JWT_SECRET = ''dev-secret'', ACCESS_MIN = 15, REFRESH_DAYS = 7\<rparr>"

definition ex_alice :: UserORM where
  "ex_alice = \<lparr>id' = 1, username = ''alice'', password_hash = ''hash-of-alice12345'', role = ''user''\<rparr>"

definition ex_verify :: "string \<Rightarrow> string \<Rightarrow> bool" where
  "ex_verify password hash = (hash = ''hash-of-'' @ password)"

definition ex_token :: token where
  "ex_token = fst (create_refresh_token ex_settings 1000000 ''r0'' 1)"

text \<open>
  A refresh token signed with the same secret that carries the \<^verbatim>\<open>jti\<close> of that row and
  the subject 2, an id no user of the examples has. The foreign key of
  \<^verbatim>\<open>refresh_tokens.user_id\<close> keeps the user a row names, so a subject without a user is
  one the token's row does not name.
\<close>

definition ex_orphan_token :: token where
  "ex_orphan_token = fst (create_refresh_token ex_settings 1000000 ''r0'' 2)"

definition ex_row :: "bool \<Rightarrow> RefreshTokenORM" where
  "ex_row r = \<lparr>jti = ''r0'', user_id = 1, expires_at = 1604800, revoked = r\<rparr>"

definition ex_pair :: "int \<Rightarrow> string \<Rightarrow> string \<Rightarrow> TokenPair" where
  "ex_pair now ja jr =
     TokenPair (create_access_token ex_settings now ja 1 ''user'')
       (fst (create_refresh_token ex_settings now jr 1)) ''bearer''"

section \<open>Properties of the counter primitive\<close>

lemma lookup_upd_same:
  "lookup (r(k \<mapsto> e)) now k =
     (case expire_at e of None \<Rightarrow> Some e | Some t \<Rightarrow> if now < t then Some e else None)"
  by (simp add: lookup_def)

lemma incr_with_ttl_absent:
  assumes "lookup r now key = None"
  shows "incr_with_ttl r now key w =
           Inr (r(key \<mapsto> \<lparr>content = Num 1, expire_at = Some (now + w * 1000)\<rparr>), 1)"
  using assms by (simp add: incr_with_ttl_def INCR_def EXPIRE_def lookup_upd_same)

lemma incr_with_ttl_present:
  assumes "lookup r now key = Some e" and "content e = Num n"
    and "- (2 ^ 63) \<le> n" and "n < 2 ^ 63 - 1"
  shows "incr_with_ttl r now key w =
           Inr (r(key \<mapsto> e\<lparr>content := Num (n + 1),
                  expire_at := (if n + 1 = 1 then Some (now + w * 1000) else expire_at e)\<rparr>),
                n + 1)"
proof (cases "n = 0")
  case True
  have live: "lookup (r(key \<mapsto> e\<lparr>content := Num 1\<rparr>)) now key = Some (e\<lparr>content := Num 1\<rparr>)"
    using assms(1) by (auto simp: lookup_def split: option.splits if_splits)
  show ?thesis
    using assms True live by (simp add: incr_with_ttl_def INCR_def EXPIRE_def)
next
  case False
  then show ?thesis
    using assms by (simp add: incr_with_ttl_def INCR_def)
qed

text \<open>
  A counter that is live and counts at least 1 is incremented and keeps its expiry: the
  step every later request of a window takes.
\<close>

lemma count_step:
  assumes "t < T" and "1 \<le> n" and "n < 2 ^ 63 - 1"
  shows "incr_with_ttl (r(key \<mapsto> \<lparr>content = Num n, expire_at = Some T\<rparr>)) t key w =
           Inr (r(key \<mapsto> \<lparr>content = Num (n + 1), expire_at = Some T\<rparr>), n + 1)"
  using assms by (simp add: incr_with_ttl_def INCR_def lookup_def)

lemma TTL_content_upd:
  assumes "r key = Some e"
  shows "TTL (r(key \<mapsto> e\<lparr>content := v\<rparr>)) t key = TTL r t key"
  using assms by (simp add: TTL_def lookup_def split: option.splits)

lemma lookup_SomeD: "lookup r now key = Some e \<Longrightarrow> r key = Some e"
  by (auto simp: lookup_def split: option.splits if_splits)


text \<open>
  C2. For every key, \<open>incr_with_ttl\<close> increments the integer at the key and returns the
  value after the increment. When the key is absent (or has expired) it is created at 1
  and its expiry is set to \<open>w\<close> seconds from now. When the key holds an integer \<open>n\<close> that
  can be incremented, the new value is \<open>n + 1\<close>, and the expiry is set to \<open>w\<close> seconds
  from now only if \<open>n + 1 = 1\<close>: an increment whose result is greater than 1 leaves the
  expiry as it was, so the key's TTL at any later clock reading \<open>t\<close> is what it would have
  been without the increment, and no other key changes. The script is one transition of
  the store.
\<close>

theorem incr_with_ttl_contract:
  "(lookup r now key = None \<longrightarrow>
      incr_with_ttl r now key w =
        Inr (r(key \<mapsto> \<lparr>content = Num 1, expire_at = Some (now + w * 1000)\<rparr>), 1))
   \<and> (lookup r now key = Some e \<and> content e = Num n \<and> - (2 ^ 63) \<le> n \<and> n < 2 ^ 63 - 1 \<longrightarrow>
      incr_with_ttl r now key w =
        Inr (r(key \<mapsto> e\<lparr>content := Num (n + 1),
               expire_at := (if n + 1 = 1 then Some (now + w * 1000) else expire_at e)\<rparr>),
             n + 1))
   \<and> (lookup r now key = Some e \<and> content e = Num n \<and> 1 \<le> n \<and> n < 2 ^ 63 - 1 \<longrightarrow>
      (\<exists>r'. incr_with_ttl r now key w = Inr (r', n + 1) \<and> 1 < n + 1
         \<and> TTL r' t key = TTL r t key \<and> (\<forall>k. k \<noteq> key \<longrightarrow> r' k = r k)))"
proof (intro conjI impI)
  assume "lookup r now key = None"
  then show "incr_with_ttl r now key w =
        Inr (r(key \<mapsto> \<lparr>content = Num 1, expire_at = Some (now + w * 1000)\<rparr>), 1)"
    by (rule incr_with_ttl_absent)
next
  assume "lookup r now key = Some e \<and> content e = Num n \<and> - (2 ^ 63) \<le> n \<and> n < 2 ^ 63 - 1"
  then show "incr_with_ttl r now key w =
        Inr (r(key \<mapsto> e\<lparr>content := Num (n + 1),
               expire_at := (if n + 1 = 1 then Some (now + w * 1000) else expire_at e)\<rparr>),
             n + 1)"
    using incr_with_ttl_present [of r now key e n w] by blast
next
  assume h: "lookup r now key = Some e \<and> content e = Num n \<and> 1 \<le> n \<and> n < 2 ^ 63 - 1"
  then have "incr_with_ttl r now key w = Inr (r(key \<mapsto> e\<lparr>content := Num (n + 1)\<rparr>), n + 1)"
    using incr_with_ttl_present [of r now key e n w] by simp
  moreover have "TTL (r(key \<mapsto> e\<lparr>content := Num (n + 1)\<rparr>)) t key = TTL r t key"
    using h lookup_SomeD [of r now key e] by (simp add: TTL_content_upd)
  ultimately show "\<exists>r'. incr_with_ttl r now key w = Inr (r', n + 1) \<and> 1 < n + 1
         \<and> TTL r' t key = TTL r t key \<and> (\<forall>k. k \<noteq> key \<longrightarrow> r' k = r k)"
    using h by auto
qed

theorem incr_with_ttl_contract_witness:
  "incr_with_ttl Map.empty 7 ''rl:ping:10.0.0.1'' 10 =
     Inr ([''rl:ping:10.0.0.1'' \<mapsto> \<lparr>content = Num 1, expire_at = Some 10007\<rparr>], 1)
   \<and> incr_with_ttl [''rl:ping:10.0.0.1'' \<mapsto> \<lparr>content = Num 1, expire_at = Some 10007\<rparr>]
        9000 ''rl:ping:10.0.0.1'' 10 =
     Inr ([''rl:ping:10.0.0.1'' \<mapsto> \<lparr>content = Num 2, expire_at = Some 10007\<rparr>], 2)"
  using incr_with_ttl_contract [of Map.empty 7 "''rl:ping:10.0.0.1''" 10
          "\<lparr>content = Num 1, expire_at = Some 10007\<rparr>" 1]
        incr_with_ttl_contract [of "[''rl:ping:10.0.0.1'' \<mapsto> \<lparr>content = Num 1, expire_at = Some 10007\<rparr>]"
          9000 "''rl:ping:10.0.0.1''" 10 "\<lparr>content = Num 1, expire_at = Some 10007\<rparr>" 1]
  by (simp add: lookup_def)

section \<open>Properties of the rate limiter\<close>

lemma str_int_5: "str_int 5 = ''5''"
  by (simp add: str_int_def digits.simps digit_char_def)

lemma str_int_10: "str_int 10 = ''10''"
  by (simp add: str_int_def digits.simps digit_char_def)

lemma limiter_allow:
  assumes "key = ''rl:'' @ key_prefix config @ '':'' @ (case key_fn of Some f \<Rightarrow> f req | None \<Rightarrow> client_ip req)"
    and "incr_with_ttl r t_incr key (window_seconds config) = Inr (r1, current)"
    and "current \<le> limit config"
  shows "limiter config key_fn req r t_incr t_ttl = (r1, Inr ())"
  using assms by (simp add: limiter_def)

lemma limiter_reject:
  assumes "key = ''rl:'' @ key_prefix config @ '':'' @ (case key_fn of Some f \<Rightarrow> f req | None \<Rightarrow> client_ip req)"
    and "incr_with_ttl r t_incr key (window_seconds config) = Inr (r1, current)"
    and "limit config < current"
  shows "limiter config key_fn req r t_incr t_ttl =
           (r1, Inl (HTTPException 429
                  (''Rate limit exceeded: '' @ str_int (limit config) @ ''/''
                     @ str_int (window_seconds config) @ ''s'')
                  [(''Retry-After'', str_int (max (TTL r1 t_ttl key) 1))]))"
  using assms by (simp add: limiter_def)

lemma limiter_sixth_call:
  assumes key: "key = ''rl:'' @ key_prefix config @ '':'' @ (case key_fn of Some f \<Rightarrow> f req | None \<Rightarrow> client_ip req)"
    and cfg: "limit config = 5" "window_seconds config = 10"
    and fresh: "lookup r a1 key = None"
    and within: "a2 < a1 + 10000" "a3 < a1 + 10000" "a4 < a1 + 10000" "a5 < a1 + 10000" "a6 < a1 + 10000"
  shows "limiter_calls config key_fn req r [(a1, b1), (a2, b2), (a3, b3), (a4, b4), (a5, b5), (a6, b6)] =
           (r(key \<mapsto> \<lparr>content = Num 6, expire_at = Some (a1 + 10000)\<rparr>),
            [Inr (), Inr (), Inr (), Inr (), Inr (),
             Inl (HTTPException 429 ''Rate limit exceeded: 5/10s''
                    [(''Retry-After'',
                      str_int (max (TTL (r(key \<mapsto> \<lparr>content = Num 6, expire_at = Some (a1 + 10000)\<rparr>)) b6 key) 1))])])"
proof -
  let ?T = "a1 + 10000"
  let ?s = "\<lambda>n. r(key \<mapsto> \<lparr>content = Num n, expire_at = Some ?T\<rparr>)"
  have c1: "limiter config key_fn req r a1 b1 = (?s 1, Inr ())"
    using limiter_allow [OF key, of r a1 "?s 1" 1 b1] incr_with_ttl_absent [OF fresh, of 10] cfg by simp
  have step: "limiter config key_fn req (?s n) t b = (?s (n + 1), Inr ())"
    if "t < ?T" "1 \<le> n" "n < 5" for n t b
    using limiter_allow [OF key, of "?s n" t "?s (n + 1)" "n + 1" b]
      count_step [of t ?T n r key 10] that cfg by simp
  have c2: "limiter config key_fn req (?s 1) a2 b2 = (?s 2, Inr ())"
    using step [of a2 1 b2] within by simp
  have c3: "limiter config key_fn req (?s 2) a3 b3 = (?s 3, Inr ())"
    using step [of a3 2 b3] within by simp
  have c4: "limiter config key_fn req (?s 3) a4 b4 = (?s 4, Inr ())"
    using step [of a4 3 b4] within by simp
  have c5: "limiter config key_fn req (?s 4) a5 b5 = (?s 5, Inr ())"
    using step [of a5 4 b5] within by simp
  have c6: "limiter config key_fn req (?s 5) a6 b6 =
              (?s 6, Inl (HTTPException 429 ''Rate limit exceeded: 5/10s''
                       [(''Retry-After'', str_int (max (TTL (?s 6) b6 key) 1))]))"
    using limiter_reject [OF key, of "?s 5" a6 "?s 6" 6 b6]
      count_step [of a6 ?T 5 r key 10] within cfg by (simp add: str_int_5 str_int_10)
  show ?thesis
    by (simp add: c1 c2 c3 c4 c5 c6)
qed

lemma lookup_content_upd:
  assumes "lookup r t k = Some e" and "r' k = Some (e\<lparr>content := v\<rparr>)"
  shows "lookup r' t k = Some (e\<lparr>content := v\<rparr>)"
  using assms by (auto simp: lookup_def split: option.splits if_splits)

lemma limiter_step:
  assumes key: "key = ''rl:'' @ key_prefix config @ '':'' @ (case key_fn of Some f \<Rightarrow> f req | None \<Rightarrow> client_ip req)"
    and live: "lookup r t key = Some e"
    and cnt: "content e = Num n" "1 \<le> n" "n < 2 ^ 63 - 1" and m: "m = n + 1"
  shows "\<exists>res. limiter config key_fn req r t b = (r(key \<mapsto> e\<lparr>content := Num m\<rparr>), res)
           \<and> (limit config < m \<longrightarrow>
                res = Inl (HTTPException 429
                       (''Rate limit exceeded: '' @ str_int (limit config) @ ''/''
                          @ str_int (window_seconds config) @ ''s'')
                       [(''Retry-After'',
                         str_int (max (TTL (r(key \<mapsto> e\<lparr>content := Num m\<rparr>)) b key) 1))]))"
proof -
  let ?r1 = "r(key \<mapsto> e\<lparr>content := Num m\<rparr>)"
  have inc: "incr_with_ttl r t key (window_seconds config) = Inr (?r1, m)"
    using incr_with_ttl_present [OF live cnt(1), of "window_seconds config"] cnt m by simp
  show ?thesis
  proof (cases "limit config < m")
    case True
    then show ?thesis
      using limiter_reject [OF key inc True, of b] by simp
  next
    case False
    then show ?thesis
      using limiter_allow [OF key inc, of b] by simp
  qed
qed

lemma six_more_calls:
  assumes key: "key = ''rl:'' @ key_prefix config @ '':'' @ (case key_fn of Some f \<Rightarrow> f req | None \<Rightarrow> client_ip req)"
    and cfg: "limit config = 5" "window_seconds config = 10"
    and cnt: "content e = Num k" "1 \<le> k" "k + 6 < 2 ^ 63"
    and live: "lookup r a1 key = Some e" "lookup r a2 key = Some e" "lookup r a3 key = Some e"
      "lookup r a4 key = Some e" "lookup r a5 key = Some e" "lookup r a6 key = Some e"
  shows "\<exists>rs. length rs = 5
           \<and> limiter_calls config key_fn req r
                [(a1, b1), (a2, b2), (a3, b3), (a4, b4), (a5, b5), (a6, b6)] =
               (r(key \<mapsto> e\<lparr>content := Num (k + 6)\<rparr>),
                rs @ [Inl (HTTPException 429 ''Rate limit exceeded: 5/10s''
                        [(''Retry-After'',
                          str_int (max (TTL (r(key \<mapsto> e\<lparr>content := Num (k + 6)\<rparr>)) b6 key) 1))])])"
proof -
  let ?s = "\<lambda>i. r(key \<mapsto> e\<lparr>content := Num (k + i)\<rparr>)"
  have lv: "lookup (?s i) t key = Some (e\<lparr>content := Num (k + i)\<rparr>)" if "lookup r t key = Some e" for i t
    using lookup_content_upd [of r t key e "?s i" "Num (k + i)"] that by simp
  have e1: "\<exists>x. limiter config key_fn req r a1 b1 = (?s 1, x)"
    using limiter_step [OF key live(1) cnt(1) cnt(2), of "k + 1" b1] cnt(3) by auto
  have e2: "\<exists>x. limiter config key_fn req (?s 1) a2 b2 = (?s 2, x)"
    using limiter_step [OF key lv [OF live(2), of 1], of "k + 1" "k + 2" b2] cnt by auto
  have e3: "\<exists>x. limiter config key_fn req (?s 2) a3 b3 = (?s 3, x)"
    using limiter_step [OF key lv [OF live(3), of 2], of "k + 2" "k + 3" b3] cnt by auto
  have e4: "\<exists>x. limiter config key_fn req (?s 3) a4 b4 = (?s 4, x)"
    using limiter_step [OF key lv [OF live(4), of 3], of "k + 3" "k + 4" b4] cnt by auto
  have e5: "\<exists>x. limiter config key_fn req (?s 4) a5 b5 = (?s 5, x)"
    using limiter_step [OF key lv [OF live(5), of 4], of "k + 4" "k + 5" b5] cnt by auto
  have s6: "limiter config key_fn req (?s 5) a6 b6 =
              (?s 6, Inl (HTTPException 429 ''Rate limit exceeded: 5/10s''
                        [(''Retry-After'', str_int (max (TTL (?s 6) b6 key) 1))]))"
    using limiter_step [OF key lv [OF live(6), of 5], of "k + 5" "k + 6" b6] cnt cfg
    by (auto simp: str_int_5 str_int_10)
  obtain x1 x2 x3 x4 x5 where s1: "limiter config key_fn req r a1 b1 = (?s 1, x1)"
    and s2: "limiter config key_fn req (?s 1) a2 b2 = (?s 2, x2)"
    and s3: "limiter config key_fn req (?s 2) a3 b3 = (?s 3, x3)"
    and s4: "limiter config key_fn req (?s 3) a4 b4 = (?s 4, x4)"
    and s5: "limiter config key_fn req (?s 4) a5 b5 = (?s 5, x5)"
    using e1 e2 e3 e4 e5 by blast
  have "limiter_calls config key_fn req r
                [(a1, b1), (a2, b2), (a3, b3), (a4, b4), (a5, b5), (a6, b6)] =
          (?s 6, [x1, x2, x3, x4, x5] @ [Inl (HTTPException 429 ''Rate limit exceeded: 5/10s''
                        [(''Retry-After'', str_int (max (TTL (?s 6) b6 key) 1))])])"
    by (simp add: s1 s2 s3 s4 s5 s6)
  then show ?thesis
    by (intro exI [of _ "[x1, x2, x3, x4, x5]"]) simp
qed

text \<open>
  C3. For every configuration and identity the dependency increments the key
  \<open>rl:<key_prefix>:<identity>\<close> through \<open>incr_with_ttl\<close> with the configuration's window.
  When the count after the increment is at most the limit the request is allowed; when it
  exceeds the limit the request is rejected with status 429 and a Retry-After header that
  is the key's TTL, read at \<open>t_ttl\<close>, or 1 when the TTL is below 1. With limit 5 and a
  window of 10 seconds, six requests on a key that is absent at the first one, the later
  five made before the window of the first ends: the first five are allowed and the sixth
  is rejected with a Retry-After of at least 1. Six requests on a key that already counts
  \<open>k \<ge> 1\<close> and is live at each of them: the sixth is rejected likewise.
\<close>

theorem limiter_check:
  assumes "key = ''rl:'' @ key_prefix config @ '':'' @ (case key_fn of Some f \<Rightarrow> f req | None \<Rightarrow> client_ip req)"
  shows "(incr_with_ttl r t_incr key (window_seconds config) = Inr (r1, current) \<and> current \<le> limit config \<longrightarrow>
            limiter config key_fn req r t_incr t_ttl = (r1, Inr ()))
       \<and> (incr_with_ttl r t_incr key (window_seconds config) = Inr (r1, current) \<and> limit config < current \<longrightarrow>
            limiter config key_fn req r t_incr t_ttl =
              (r1, Inl (HTTPException 429
                     (''Rate limit exceeded: '' @ str_int (limit config) @ ''/''
                        @ str_int (window_seconds config) @ ''s'')
                     [(''Retry-After'', str_int (max (TTL r1 t_ttl key) 1))]))
            \<and> 1 \<le> max (TTL r1 t_ttl key) 1)
       \<and> (limit config = 5 \<and> window_seconds config = 10 \<and> lookup r a1 key = None
            \<and> a2 < a1 + 10000 \<and> a3 < a1 + 10000 \<and> a4 < a1 + 10000 \<and> a5 < a1 + 10000
            \<and> a6 < a1 + 10000 \<longrightarrow>
            limiter_calls config key_fn req r
                [(a1, b1), (a2, b2), (a3, b3), (a4, b4), (a5, b5), (a6, b6)] =
              (r(key \<mapsto> \<lparr>content = Num 6, expire_at = Some (a1 + 10000)\<rparr>),
               [Inr (), Inr (), Inr (), Inr (), Inr (),
                Inl (HTTPException 429 ''Rate limit exceeded: 5/10s''
                       [(''Retry-After'',
                         str_int (max (TTL (r(key \<mapsto> \<lparr>content = Num 6, expire_at = Some (a1 + 10000)\<rparr>)) b6 key) 1))])])
            \<and> 1 \<le> max (TTL (r(key \<mapsto> \<lparr>content = Num 6, expire_at = Some (a1 + 10000)\<rparr>)) b6 key) 1)
       \<and> (limit config = 5 \<and> window_seconds config = 10 \<and> content e = Num k \<and> 1 \<le> k
            \<and> k + 6 < 2 ^ 63 \<and> lookup r a1 key = Some e \<and> lookup r a2 key = Some e
            \<and> lookup r a3 key = Some e \<and> lookup r a4 key = Some e \<and> lookup r a5 key = Some e
            \<and> lookup r a6 key = Some e \<longrightarrow>
            (\<exists>rs. length rs = 5
               \<and> limiter_calls config key_fn req r
                    [(a1, b1), (a2, b2), (a3, b3), (a4, b4), (a5, b5), (a6, b6)] =
                   (r(key \<mapsto> e\<lparr>content := Num (k + 6)\<rparr>),
                    rs @ [Inl (HTTPException 429 ''Rate limit exceeded: 5/10s''
                            [(''Retry-After'',
                              str_int (max (TTL (r(key \<mapsto> e\<lparr>content := Num (k + 6)\<rparr>)) b6 key) 1))])])))"
proof (intro conjI impI)
  assume "incr_with_ttl r t_incr key (window_seconds config) = Inr (r1, current) \<and> current \<le> limit config"
  then show "limiter config key_fn req r t_incr t_ttl = (r1, Inr ())"
    using limiter_allow [OF assms] by blast
next
  assume "incr_with_ttl r t_incr key (window_seconds config) = Inr (r1, current) \<and> limit config < current"
  then show "limiter config key_fn req r t_incr t_ttl =
              (r1, Inl (HTTPException 429
                     (''Rate limit exceeded: '' @ str_int (limit config) @ ''/''
                        @ str_int (window_seconds config) @ ''s'')
                     [(''Retry-After'', str_int (max (TTL r1 t_ttl key) 1))]))"
    using limiter_reject [OF assms] by blast
next
  assume "limit config = 5 \<and> window_seconds config = 10 \<and> lookup r a1 key = None
            \<and> a2 < a1 + 10000 \<and> a3 < a1 + 10000 \<and> a4 < a1 + 10000 \<and> a5 < a1 + 10000
            \<and> a6 < a1 + 10000"
  then show "limiter_calls config key_fn req r
                [(a1, b1), (a2, b2), (a3, b3), (a4, b4), (a5, b5), (a6, b6)] =
              (r(key \<mapsto> \<lparr>content = Num 6, expire_at = Some (a1 + 10000)\<rparr>),
               [Inr (), Inr (), Inr (), Inr (), Inr (),
                Inl (HTTPException 429 ''Rate limit exceeded: 5/10s''
                       [(''Retry-After'',
                         str_int (max (TTL (r(key \<mapsto> \<lparr>content = Num 6, expire_at = Some (a1 + 10000)\<rparr>)) b6 key) 1))])])"
    using limiter_sixth_call [OF assms] by blast
next
  assume "limit config = 5 \<and> window_seconds config = 10 \<and> content e = Num k \<and> 1 \<le> k
            \<and> k + 6 < 2 ^ 63 \<and> lookup r a1 key = Some e \<and> lookup r a2 key = Some e
            \<and> lookup r a3 key = Some e \<and> lookup r a4 key = Some e \<and> lookup r a5 key = Some e
            \<and> lookup r a6 key = Some e"
  then show "\<exists>rs. length rs = 5
               \<and> limiter_calls config key_fn req r
                    [(a1, b1), (a2, b2), (a3, b3), (a4, b4), (a5, b5), (a6, b6)] =
                   (r(key \<mapsto> e\<lparr>content := Num (k + 6)\<rparr>),
                    rs @ [Inl (HTTPException 429 ''Rate limit exceeded: 5/10s''
                            [(''Retry-After'',
                              str_int (max (TTL (r(key \<mapsto> e\<lparr>content := Num (k + 6)\<rparr>)) b6 key) 1))])])"
    using six_more_calls [OF assms, of e k r a1 a2 a3 a4 a5 a6 b1 b2 b3 b4 b5 b6] by blast
qed simp_all

theorem limiter_check_witness:
  "limiter \<lparr>key_prefix = ''ping'', limit = 5, window_seconds = 10\<rparr> None \<lparr>client = Some ''10.0.0.1''\<rparr>
      Map.empty 0 0 =
     ([''rl:ping:10.0.0.1'' \<mapsto> \<lparr>content = Num 1, expire_at = Some 10000\<rparr>], Inr ())
   \<and> limiter \<lparr>key_prefix = ''ping'', limit = 5, window_seconds = 10\<rparr> None \<lparr>client = Some ''10.0.0.1''\<rparr>
      [''rl:ping:10.0.0.1'' \<mapsto> \<lparr>content = Num 5, expire_at = Some 10000\<rparr>] 5000 5200 =
     ([''rl:ping:10.0.0.1'' \<mapsto> \<lparr>content = Num 6, expire_at = Some 10000\<rparr>],
      Inl (HTTPException 429 ''Rate limit exceeded: 5/10s'' [(''Retry-After'', ''5'')]))
   \<and> limiter_calls \<lparr>key_prefix = ''ping'', limit = 5, window_seconds = 10\<rparr> None
        \<lparr>client = Some ''10.0.0.1''\<rparr> Map.empty
        [(0, 0), (1000, 1000), (2000, 2000), (3000, 3000), (4000, 4000), (5000, 5200)] =
     ([''rl:ping:10.0.0.1'' \<mapsto> \<lparr>content = Num 6, expire_at = Some 10000\<rparr>],
      [Inr (), Inr (), Inr (), Inr (), Inr (),
       Inl (HTTPException 429 ''Rate limit exceeded: 5/10s'' [(''Retry-After'', ''5'')])])
   \<and> (\<exists>rs. length rs = 5
        \<and> limiter_calls \<lparr>key_prefix = ''ping'', limit = 5, window_seconds = 10\<rparr> None
             \<lparr>client = Some ''10.0.0.1''\<rparr>
             [''rl:ping:10.0.0.1'' \<mapsto> \<lparr>content = Num 2, expire_at = Some 10000\<rparr>]
             [(0, 0), (1000, 1000), (2000, 2000), (3000, 3000), (4000, 4000), (5000, 5200)] =
            ([''rl:ping:10.0.0.1'' \<mapsto> \<lparr>content = Num 8, expire_at = Some 10000\<rparr>],
             rs @ [Inl (HTTPException 429 ''Rate limit exceeded: 5/10s'' [(''Retry-After'', ''5'')])]))"
proof -
  let ?cfg = "\<lparr>key_prefix = ''ping'', limit = 5, window_seconds = 10\<rparr>"
  let ?req = "\<lparr>client = Some ''10.0.0.1''\<rparr>"
  let ?key = "''rl:ping:10.0.0.1''"
  let ?s = "\<lambda>n. [?key \<mapsto> \<lparr>content = Num n, expire_at = Some 10000\<rparr>]"
  have k: "?key = ''rl:'' @ key_prefix ?cfg @ '':'' @ (case None of Some f \<Rightarrow> f ?req | None \<Rightarrow> client_ip ?req)"
    by (simp add: client_ip_def)
  have i1: "incr_with_ttl Map.empty 0 ?key 10 = Inr (?s 1, 1)"
    by (simp add: incr_with_ttl_def INCR_def EXPIRE_def lookup_def)
  have i6: "incr_with_ttl (?s 5) 5000 ?key 10 = Inr (?s 6, 6)"
    by (simp add: incr_with_ttl_def INCR_def EXPIRE_def lookup_def)
  have t6: "str_int (max (TTL (?s 6) 5200 ?key) 1) = ''5''"
    by (simp add: TTL_def lookup_def str_int_def digits.simps digit_char_def)
  have a: "limiter ?cfg None ?req Map.empty 0 0 = (?s 1, Inr ())"
    using limiter_check [OF k, where r = Map.empty and t_incr = 0 and ?r1.0 = "?s 1" and current = 1 and t_ttl = 0]
      i1 by simp
  have b: "limiter ?cfg None ?req (?s 5) 5000 5200 =
             (?s 6, Inl (HTTPException 429 ''Rate limit exceeded: 5/10s'' [(''Retry-After'', ''5'')]))"
    using limiter_check [OF k, where r = "?s 5" and t_incr = 5000 and ?r1.0 = "?s 6" and current = 6 and t_ttl = 5200]
      i6 t6 by (simp add: str_int_5 str_int_10)
  have c: "limiter_calls ?cfg None ?req Map.empty
             [(0, 0), (1000, 1000), (2000, 2000), (3000, 3000), (4000, 4000), (5000, 5200)] =
           (?s 6, [Inr (), Inr (), Inr (), Inr (), Inr (),
              Inl (HTTPException 429 ''Rate limit exceeded: 5/10s'' [(''Retry-After'', ''5'')])])"
    using limiter_check [OF k, where r = Map.empty and ?a1.0 = 0 and ?a2.0 = 1000 and ?a3.0 = 2000
        and ?a4.0 = 3000 and ?a5.0 = 4000 and ?a6.0 = 5000 and ?b1.0 = 0 and ?b2.0 = 1000
        and ?b3.0 = 2000 and ?b4.0 = 3000 and ?b5.0 = 4000 and ?b6.0 = 5200] t6
    by (simp add: lookup_def)
  have t8: "str_int (max (TTL (?s 8) 5200 ?key) 1) = ''5''"
    by (simp add: TTL_def lookup_def str_int_def digits.simps digit_char_def)
  have d: "\<exists>rs. length rs = 5
        \<and> limiter_calls ?cfg None ?req (?s 2)
             [(0, 0), (1000, 1000), (2000, 2000), (3000, 3000), (4000, 4000), (5000, 5200)] =
            (?s 8, rs @ [Inl (HTTPException 429 ''Rate limit exceeded: 5/10s'' [(''Retry-After'', ''5'')])])"
    using limiter_check [OF k, where r = "?s 2" and e = "\<lparr>content = Num 2, expire_at = Some 10000\<rparr>"
        and k = 2 and ?a1.0 = 0 and ?a2.0 = 1000 and ?a3.0 = 2000
        and ?a4.0 = 3000 and ?a5.0 = 4000 and ?a6.0 = 5000 and ?b1.0 = 0 and ?b2.0 = 1000
        and ?b3.0 = 2000 and ?b4.0 = 3000 and ?b5.0 = 4000 and ?b6.0 = 5200] t8
    by (simp add: lookup_def)
  show ?thesis using a b c d by simp
qed

section \<open>Properties of the brute-force guard\<close>

lemma register_failure_lock:
  assumes "incr_with_ttl r t_incr (fail_key cfg uname ip) (bf_window_seconds cfg) = Inr (r1, current)"
    and "max_failures cfg \<le> current" and "0 < lock_seconds cfg"
  shows "register_failure r cfg uname ip t_incr t_set =
           (r1(lock_key cfg uname ip \<mapsto>
                 \<lparr>content = Num 1, expire_at = Some (t_set + lock_seconds cfg * 1000)\<rparr>),
            Inr current)"
  using assms by (simp add: register_failure_def SET_EX_def)

lemma register_failure_below:
  assumes "incr_with_ttl r t_incr (fail_key cfg uname ip) (bf_window_seconds cfg) = Inr (r1, current)"
    and "current < max_failures cfg"
  shows "register_failure r cfg uname ip t_incr t_set = (r1, Inr current)"
  using assms by (simp add: register_failure_def)

lemma ensure_not_locked_live:
  assumes "r (lock_key cfg uname ip) = Some \<lparr>content = v, expire_at = Some T\<rparr>" and "t_exists < T"
  shows "ensure_not_locked r cfg uname ip t_exists t_ttl =
           Inl (HTTPException 429 ''Too many login attempts. Try again later.''
                  [(''Retry-After'', str_int (max (TTL r t_ttl (lock_key cfg uname ip)) 1))])"
  using assms by (simp add: ensure_not_locked_def EXISTS_def lookup_def)

lemma five_failures:
  assumes cfg: "max_failures cfg = 5" "0 < lock_seconds cfg"
    and fresh: "lookup r a1 (fail_key cfg uname ip) = None"
    and within: "a2 < a1 + bf_window_seconds cfg * 1000" "a3 < a1 + bf_window_seconds cfg * 1000"
      "a4 < a1 + bf_window_seconds cfg * 1000" "a5 < a1 + bf_window_seconds cfg * 1000"
  shows "register_failures r cfg uname ip [(a1, b1), (a2, b2), (a3, b3), (a4, b4), (a5, b5)] =
           (r(fail_key cfg uname ip \<mapsto>
                \<lparr>content = Num 5, expire_at = Some (a1 + bf_window_seconds cfg * 1000)\<rparr>,
              lock_key cfg uname ip \<mapsto>
                \<lparr>content = Num 1, expire_at = Some (b5 + lock_seconds cfg * 1000)\<rparr>),
            [Inr 1, Inr 2, Inr 3, Inr 4, Inr 5])"
proof -
  let ?fk = "fail_key cfg uname ip"
  let ?T = "a1 + bf_window_seconds cfg * 1000"
  let ?s = "\<lambda>n. r(?fk \<mapsto> \<lparr>content = Num n, expire_at = Some ?T\<rparr>)"
  have c1: "register_failure r cfg uname ip a1 b1 = (?s 1, Inr 1)"
    using register_failure_below [of r a1 cfg uname ip "?s 1" 1 b1]
      incr_with_ttl_absent [OF fresh] cfg by simp
  have step: "register_failure (?s n) cfg uname ip t b = (?s (n + 1), Inr (n + 1))"
    if "t < ?T" "1 \<le> n" "n < 4" for n t b
    using register_failure_below [of "?s n" t cfg uname ip "?s (n + 1)" "n + 1" b]
      count_step [of t ?T n r ?fk "bf_window_seconds cfg"] that cfg by simp
  have c2: "register_failure (?s 1) cfg uname ip a2 b2 = (?s 2, Inr 2)"
    using step [of a2 1 b2] within by simp
  have c3: "register_failure (?s 2) cfg uname ip a3 b3 = (?s 3, Inr 3)"
    using step [of a3 2 b3] within by simp
  have c4: "register_failure (?s 3) cfg uname ip a4 b4 = (?s 4, Inr 4)"
    using step [of a4 3 b4] within by simp
  have c5: "register_failure (?s 4) cfg uname ip a5 b5 =
              ((?s 5)(lock_key cfg uname ip \<mapsto>
                 \<lparr>content = Num 1, expire_at = Some (b5 + lock_seconds cfg * 1000)\<rparr>), Inr 5)"
    using register_failure_lock [of "?s 4" a5 cfg uname ip "?s 5" 5 b5]
      count_step [of a5 ?T 4 r ?fk "bf_window_seconds cfg"] within cfg by simp
  show ?thesis
    by (simp add: c1 c2 c3 c4 c5)
qed

lemma fail_key_neq_lock_key: "fail_key cfg uname ip \<noteq> lock_key cfg uname ip"
  by (simp add: fail_key_def lock_key_def)

lemma register_failure_step:
  assumes live: "lookup r t (fail_key cfg uname ip) = Some e"
    and cnt: "content e = Num n" "1 \<le> n" "n < 2 ^ 63 - 1"
    and pos: "0 < lock_seconds cfg"
  shows "\<exists>r'. register_failure r cfg uname ip t b = (r', Inr (n + 1))
           \<and> r' (fail_key cfg uname ip) = Some (e\<lparr>content := Num (n + 1)\<rparr>)
           \<and> (max_failures cfg \<le> n + 1 \<longrightarrow>
                r' (lock_key cfg uname ip) =
                  Some \<lparr>content = Num 1, expire_at = Some (b + lock_seconds cfg * 1000)\<rparr>)"
proof -
  let ?fk = "fail_key cfg uname ip"
  let ?r1 = "r(?fk \<mapsto> e\<lparr>content := Num (n + 1)\<rparr>)"
  have inc: "incr_with_ttl r t ?fk (bf_window_seconds cfg) = Inr (?r1, n + 1)"
    using incr_with_ttl_present [OF live cnt(1), of "bf_window_seconds cfg"] cnt by simp
  show ?thesis
  proof (cases "max_failures cfg \<le> n + 1")
    case True
    then show ?thesis
      using register_failure_lock [OF inc True pos, of b] fail_key_neq_lock_key [of cfg uname ip]
      by simp
  next
    case False
    then show ?thesis
      using register_failure_below [OF inc, of b] by simp
  qed
qed

lemma five_more_failures:
  assumes cfg: "max_failures cfg = 5" "0 < lock_seconds cfg"
    and cnt: "content e = Num k" "1 \<le> k" "k + 5 < 2 ^ 63"
    and live: "lookup r a1 (fail_key cfg uname ip) = Some e" "lookup r a2 (fail_key cfg uname ip) = Some e"
      "lookup r a3 (fail_key cfg uname ip) = Some e" "lookup r a4 (fail_key cfg uname ip) = Some e"
      "lookup r a5 (fail_key cfg uname ip) = Some e"
  shows "\<exists>r5. register_failures r cfg uname ip [(a1, b1), (a2, b2), (a3, b3), (a4, b4), (a5, b5)] =
             (r5, [Inr (k + 1), Inr (k + 2), Inr (k + 3), Inr (k + 4), Inr (k + 5)])
           \<and> r5 (lock_key cfg uname ip) =
               Some \<lparr>content = Num 1, expire_at = Some (b5 + lock_seconds cfg * 1000)\<rparr>"
proof -
  let ?fk = "fail_key cfg uname ip"
  let ?e = "\<lambda>i. e\<lparr>content := Num (k + i)\<rparr>"
  obtain r1 where s1: "register_failure r cfg uname ip a1 b1 = (r1, Inr (k + 1))"
    and f1: "r1 ?fk = Some (?e 1)"
    using register_failure_step [OF live(1) cnt(1) cnt(2) _ cfg(2), of b1] cnt(3) by auto
  have l1: "lookup r1 a2 ?fk = Some (?e 1)"
    using lookup_content_upd [of r a2 ?fk e r1 "Num (k + 1)"] live(2) f1 by simp
  obtain r2 where s2: "register_failure r1 cfg uname ip a2 b2 = (r2, Inr (k + 2))"
    and f2: "r2 ?fk = Some (?e 2)"
    using register_failure_step [OF l1 _ _ _ cfg(2), of "k + 1" b2] cnt by auto
  have l2: "lookup r2 a3 ?fk = Some (?e 2)"
    using lookup_content_upd [of r a3 ?fk e r2 "Num (k + 2)"] live(3) f2 by simp
  obtain r3 where s3: "register_failure r2 cfg uname ip a3 b3 = (r3, Inr (k + 3))"
    and f3: "r3 ?fk = Some (?e 3)"
    using register_failure_step [OF l2 _ _ _ cfg(2), of "k + 2" b3] cnt by auto
  have l3: "lookup r3 a4 ?fk = Some (?e 3)"
    using lookup_content_upd [of r a4 ?fk e r3 "Num (k + 3)"] live(4) f3 by simp
  obtain r4 where s4: "register_failure r3 cfg uname ip a4 b4 = (r4, Inr (k + 4))"
    and f4: "r4 ?fk = Some (?e 4)"
    using register_failure_step [OF l3 _ _ _ cfg(2), of "k + 3" b4] cnt by auto
  have l4: "lookup r4 a5 ?fk = Some (?e 4)"
    using lookup_content_upd [of r a5 ?fk e r4 "Num (k + 4)"] live(5) f4 by simp
  obtain r5 where s5: "register_failure r4 cfg uname ip a5 b5 = (r5, Inr (k + 5))"
    and k5: "r5 (lock_key cfg uname ip) =
               Some \<lparr>content = Num 1, expire_at = Some (b5 + lock_seconds cfg * 1000)\<rparr>"
    using register_failure_step [OF l4 _ _ _ cfg(2), of "k + 4" b5] cnt cfg(1) by auto
  have "register_failures r cfg uname ip [(a1, b1), (a2, b2), (a3, b3), (a4, b4), (a5, b5)] =
          (r5, [Inr (k + 1), Inr (k + 2), Inr (k + 3), Inr (k + 4), Inr (k + 5)])"
    by (simp add: s1 s2 s3 s4 s5)
  then show ?thesis
    using k5 by blast
qed

text \<open>
  C4. For every user name and address, \<open>register_failure\<close> increments the key
  \<open>bf:<prefix>:fail:<user>:<ip>\<close> with the configuration's window and returns the count.
  When the count has reached \<open>max_failures\<close> it sets the key \<open>bf:<prefix>:lock:<user>:<ip>\<close>
  to expire \<open>lock_seconds\<close> after the SET (for a positive \<open>lock_seconds\<close>), whatever the
  failure counter's expiry is, and leaves the counter as the increment made it; below
  \<open>max_failures\<close> it sets nothing. With \<open>max_failures = 5\<close>: after five failures that fall in
  one window of the counter (the counter is absent at the first and the later four come
  before the window of the first ends, or the counter already counts \<open>k \<ge> 1\<close> and is live
  at all five), \<open>ensure_not_locked\<close> called before the lock expires raises status 429 with
  a Retry-After header that is the lock key's TTL, or 1 when the TTL is below 1.
\<close>

theorem register_failure_then_locked:
  assumes "fk = fail_key cfg uname ip" and "lk = lock_key cfg uname ip"
  shows "fk = ''bf:'' @ bf_key_prefix cfg @ '':fail:'' @ uname @ '':'' @ ip
       \<and> lk = ''bf:'' @ bf_key_prefix cfg @ '':lock:'' @ uname @ '':'' @ ip
       \<and> (incr_with_ttl r t_incr fk (bf_window_seconds cfg) = Inr (r1, current)
            \<and> max_failures cfg \<le> current \<and> 0 < lock_seconds cfg \<longrightarrow>
            register_failure r cfg uname ip t_incr t_set =
              (r1(lk \<mapsto> \<lparr>content = Num 1, expire_at = Some (t_set + lock_seconds cfg * 1000)\<rparr>),
               Inr current))
       \<and> (incr_with_ttl r t_incr fk (bf_window_seconds cfg) = Inr (r1, current)
            \<and> current < max_failures cfg \<longrightarrow>
            register_failure r cfg uname ip t_incr t_set = (r1, Inr current))
       \<and> (max_failures cfg = 5 \<and> 0 < lock_seconds cfg \<and> lookup r a1 fk = None
            \<and> a2 < a1 + bf_window_seconds cfg * 1000 \<and> a3 < a1 + bf_window_seconds cfg * 1000
            \<and> a4 < a1 + bf_window_seconds cfg * 1000 \<and> a5 < a1 + bf_window_seconds cfg * 1000
            \<and> r5 = r(fk \<mapsto> \<lparr>content = Num 5, expire_at = Some (a1 + bf_window_seconds cfg * 1000)\<rparr>,
                      lk \<mapsto> \<lparr>content = Num 1, expire_at = Some (b5 + lock_seconds cfg * 1000)\<rparr>)
            \<and> t_exists < b5 + lock_seconds cfg * 1000 \<longrightarrow>
            register_failures r cfg uname ip [(a1, b1), (a2, b2), (a3, b3), (a4, b4), (a5, b5)] =
              (r5, [Inr 1, Inr 2, Inr 3, Inr 4, Inr 5])
            \<and> ensure_not_locked r5 cfg uname ip t_exists t_ttl =
                Inl (HTTPException 429 ''Too many login attempts. Try again later.''
                       [(''Retry-After'', str_int (max (TTL r5 t_ttl lk) 1))]))
       \<and> (max_failures cfg = 5 \<and> 0 < lock_seconds cfg \<and> content e = Num k \<and> 1 \<le> k
            \<and> k + 5 < 2 ^ 63 \<and> lookup r a1 fk = Some e \<and> lookup r a2 fk = Some e
            \<and> lookup r a3 fk = Some e \<and> lookup r a4 fk = Some e \<and> lookup r a5 fk = Some e
            \<and> t_exists < b5 + lock_seconds cfg * 1000 \<longrightarrow>
            (\<exists>r'. register_failures r cfg uname ip
                     [(a1, b1), (a2, b2), (a3, b3), (a4, b4), (a5, b5)] =
                   (r', [Inr (k + 1), Inr (k + 2), Inr (k + 3), Inr (k + 4), Inr (k + 5)])
               \<and> ensure_not_locked r' cfg uname ip t_exists t_ttl =
                   Inl (HTTPException 429 ''Too many login attempts. Try again later.''
                          [(''Retry-After'', str_int (max (TTL r' t_ttl lk) 1))])))"
proof (intro conjI impI)
  show "fk = ''bf:'' @ bf_key_prefix cfg @ '':fail:'' @ uname @ '':'' @ ip"
    using assms by (simp add: fail_key_def)
  show "lk = ''bf:'' @ bf_key_prefix cfg @ '':lock:'' @ uname @ '':'' @ ip"
    using assms by (simp add: lock_key_def)
next
  assume "incr_with_ttl r t_incr fk (bf_window_seconds cfg) = Inr (r1, current)
            \<and> max_failures cfg \<le> current \<and> 0 < lock_seconds cfg"
  then show "register_failure r cfg uname ip t_incr t_set =
              (r1(lk \<mapsto> \<lparr>content = Num 1, expire_at = Some (t_set + lock_seconds cfg * 1000)\<rparr>),
               Inr current)"
    using register_failure_lock [of r t_incr cfg uname ip r1 current t_set] assms by simp
next
  assume "incr_with_ttl r t_incr fk (bf_window_seconds cfg) = Inr (r1, current)
            \<and> current < max_failures cfg"
  then show "register_failure r cfg uname ip t_incr t_set = (r1, Inr current)"
    using register_failure_below [of r t_incr cfg uname ip r1 current t_set] assms by simp
next
  assume h: "max_failures cfg = 5 \<and> 0 < lock_seconds cfg \<and> lookup r a1 fk = None
            \<and> a2 < a1 + bf_window_seconds cfg * 1000 \<and> a3 < a1 + bf_window_seconds cfg * 1000
            \<and> a4 < a1 + bf_window_seconds cfg * 1000 \<and> a5 < a1 + bf_window_seconds cfg * 1000
            \<and> r5 = r(fk \<mapsto> \<lparr>content = Num 5, expire_at = Some (a1 + bf_window_seconds cfg * 1000)\<rparr>,
                      lk \<mapsto> \<lparr>content = Num 1, expire_at = Some (b5 + lock_seconds cfg * 1000)\<rparr>)
            \<and> t_exists < b5 + lock_seconds cfg * 1000"
  then show "register_failures r cfg uname ip [(a1, b1), (a2, b2), (a3, b3), (a4, b4), (a5, b5)] =
              (r5, [Inr 1, Inr 2, Inr 3, Inr 4, Inr 5])"
    using five_failures [of cfg r a1 uname ip a2 a3 a4 a5 b1 b2 b3 b4 b5] assms by simp
  have "r5 lk = Some \<lparr>content = Num 1, expire_at = Some (b5 + lock_seconds cfg * 1000)\<rparr>"
    using h by simp
  then show "ensure_not_locked r5 cfg uname ip t_exists t_ttl =
                Inl (HTTPException 429 ''Too many login attempts. Try again later.''
                       [(''Retry-After'', str_int (max (TTL r5 t_ttl lk) 1))])"
    using ensure_not_locked_live [of r5 cfg uname ip "Num 1" "b5 + lock_seconds cfg * 1000" t_exists t_ttl]
      h assms by simp
next
  assume g: "max_failures cfg = 5 \<and> 0 < lock_seconds cfg \<and> content e = Num k \<and> 1 \<le> k
            \<and> k + 5 < 2 ^ 63 \<and> lookup r a1 fk = Some e \<and> lookup r a2 fk = Some e
            \<and> lookup r a3 fk = Some e \<and> lookup r a4 fk = Some e \<and> lookup r a5 fk = Some e
            \<and> t_exists < b5 + lock_seconds cfg * 1000"
  then obtain r' where run: "register_failures r cfg uname ip
                     [(a1, b1), (a2, b2), (a3, b3), (a4, b4), (a5, b5)] =
                   (r', [Inr (k + 1), Inr (k + 2), Inr (k + 3), Inr (k + 4), Inr (k + 5)])"
    and lock: "r' (lock_key cfg uname ip) =
                 Some \<lparr>content = Num 1, expire_at = Some (b5 + lock_seconds cfg * 1000)\<rparr>"
    using five_more_failures [of cfg e k r a1 uname ip a2 a3 a4 a5 b1 b2 b3 b4 b5] assms by auto
  have "ensure_not_locked r' cfg uname ip t_exists t_ttl =
                   Inl (HTTPException 429 ''Too many login attempts. Try again later.''
                          [(''Retry-After'', str_int (max (TTL r' t_ttl lk) 1))])"
    using ensure_not_locked_live [of r' cfg uname ip "Num 1" "b5 + lock_seconds cfg * 1000" t_exists t_ttl]
      lock g assms by simp
  then show "\<exists>r'. register_failures r cfg uname ip
                     [(a1, b1), (a2, b2), (a3, b3), (a4, b4), (a5, b5)] =
                   (r', [Inr (k + 1), Inr (k + 2), Inr (k + 3), Inr (k + 4), Inr (k + 5)])
               \<and> ensure_not_locked r' cfg uname ip t_exists t_ttl =
                   Inl (HTTPException 429 ''Too many login attempts. Try again later.''
                          [(''Retry-After'', str_int (max (TTL r' t_ttl lk) 1))])"
    using run by blast
qed

theorem register_failure_then_locked_witness:
  "register_failure Map.empty
      \<lparr>bf_key_prefix = ''login-sim'', max_failures = 5, bf_window_seconds = 120, lock_seconds = 60\<rparr>
      ''alice'' ''10.0.0.1'' 0 1 =
     ([''bf:login-sim:fail:alice:10.0.0.1'' \<mapsto> \<lparr>content = Num 1, expire_at = Some 120000\<rparr>], Inr 1)
   \<and> register_failure
      [''bf:login-sim:fail:alice:10.0.0.1'' \<mapsto> \<lparr>content = Num 4, expire_at = Some 120000\<rparr>]
      \<lparr>bf_key_prefix = ''login-sim'', max_failures = 5, bf_window_seconds = 120, lock_seconds = 60\<rparr>
      ''alice'' ''10.0.0.1'' 4000 4001 =
     ([''bf:login-sim:fail:alice:10.0.0.1'' \<mapsto> \<lparr>content = Num 5, expire_at = Some 120000\<rparr>,
       ''bf:login-sim:lock:alice:10.0.0.1'' \<mapsto> \<lparr>content = Num 1, expire_at = Some 64001\<rparr>], Inr 5)
   \<and> register_failures Map.empty
      \<lparr>bf_key_prefix = ''login-sim'', max_failures = 5, bf_window_seconds = 120, lock_seconds = 60\<rparr>
      ''alice'' ''10.0.0.1'' [(0, 1), (1000, 1001), (2000, 2001), (3000, 3001), (4000, 4001)] =
     ([''bf:login-sim:fail:alice:10.0.0.1'' \<mapsto> \<lparr>content = Num 5, expire_at = Some 120000\<rparr>,
       ''bf:login-sim:lock:alice:10.0.0.1'' \<mapsto> \<lparr>content = Num 1, expire_at = Some 64001\<rparr>],
      [Inr 1, Inr 2, Inr 3, Inr 4, Inr 5])
   \<and> ensure_not_locked
      [''bf:login-sim:fail:alice:10.0.0.1'' \<mapsto> \<lparr>content = Num 5, expire_at = Some 120000\<rparr>,
       ''bf:login-sim:lock:alice:10.0.0.1'' \<mapsto> \<lparr>content = Num 1, expire_at = Some 64001\<rparr>]
      \<lparr>bf_key_prefix = ''login-sim'', max_failures = 5, bf_window_seconds = 120, lock_seconds = 60\<rparr>
      ''alice'' ''10.0.0.1'' 5000 5001 =
     Inl (HTTPException 429 ''Too many login attempts. Try again later.'' [(''Retry-After'', ''59'')])
   \<and> (\<exists>r'. register_failures
          [''bf:login-sim:fail:alice:10.0.0.1'' \<mapsto> \<lparr>content = Num 3, expire_at = Some 120000\<rparr>]
          \<lparr>bf_key_prefix = ''login-sim'', max_failures = 5, bf_window_seconds = 120, lock_seconds = 60\<rparr>
          ''alice'' ''10.0.0.1'' [(0, 1), (1000, 1001), (2000, 2001), (3000, 3001), (4000, 4001)] =
         (r', [Inr 4, Inr 5, Inr 6, Inr 7, Inr 8])
       \<and> ensure_not_locked r'
          \<lparr>bf_key_prefix = ''login-sim'', max_failures = 5, bf_window_seconds = 120, lock_seconds = 60\<rparr>
          ''alice'' ''10.0.0.1'' 5000 5001 =
         Inl (HTTPException 429 ''Too many login attempts. Try again later.''
                [(''Retry-After'', str_int (max (TTL r' 5001 ''bf:login-sim:lock:alice:10.0.0.1'') 1))]))"
proof -
  let ?cfg = "\<lparr>bf_key_prefix = ''login-sim'', max_failures = 5, bf_window_seconds = 120, lock_seconds = 60\<rparr>"
  let ?fk = "''bf:login-sim:fail:alice:10.0.0.1''"
  let ?lk = "''bf:login-sim:lock:alice:10.0.0.1''"
  let ?s = "\<lambda>n. [?fk \<mapsto> \<lparr>content = Num n, expire_at = Some 120000\<rparr>]"
  let ?r5 = "[?fk \<mapsto> \<lparr>content = Num 5, expire_at = Some 120000\<rparr>,
              ?lk \<mapsto> \<lparr>content = Num 1, expire_at = Some 64001\<rparr>]"
  have fk: "?fk = fail_key ?cfg ''alice'' ''10.0.0.1''"
    by (simp add: fail_key_def)
  have lk: "?lk = lock_key ?cfg ''alice'' ''10.0.0.1''"
    by (simp add: lock_key_def)
  have i1: "incr_with_ttl Map.empty 0 ?fk 120 = Inr (?s 1, 1)"
    by (simp add: incr_with_ttl_def INCR_def EXPIRE_def lookup_def)
  have i5: "incr_with_ttl (?s 4) 4000 ?fk 120 = Inr (?s 5, 5)"
    by (simp add: incr_with_ttl_def INCR_def EXPIRE_def lookup_def)
  have t: "str_int (max (TTL ?r5 5001 ?lk) 1) = ''59''"
    by (simp add: TTL_def lookup_def str_int_def digits.simps digit_char_def)
  have a: "register_failure Map.empty ?cfg ''alice'' ''10.0.0.1'' 0 1 = (?s 1, Inr 1)"
    using register_failure_then_locked [OF fk lk, where r = Map.empty and t_incr = 0
        and ?r1.0 = "?s 1" and current = 1 and t_set = 1] i1
    by simp
  have b: "register_failure (?s 4) ?cfg ''alice'' ''10.0.0.1'' 4000 4001 = (?r5, Inr 5)"
    using register_failure_then_locked [OF fk lk, where r = "?s 4" and t_incr = 4000
        and ?r1.0 = "?s 5" and current = 5 and t_set = 4001] i5
    by simp
  have c: "register_failures Map.empty ?cfg ''alice'' ''10.0.0.1''
               [(0, 1), (1000, 1001), (2000, 2001), (3000, 3001), (4000, 4001)] =
             (?r5, [Inr 1, Inr 2, Inr 3, Inr 4, Inr 5])
           \<and> ensure_not_locked ?r5 ?cfg ''alice'' ''10.0.0.1'' 5000 5001 =
               Inl (HTTPException 429 ''Too many login attempts. Try again later.''
                      [(''Retry-After'', ''59'')])"
    using register_failure_then_locked [OF fk lk, where r = Map.empty and ?r5.0 = ?r5
        and ?a1.0 = 0 and ?a2.0 = 1000 and ?a3.0 = 2000 and ?a4.0 = 3000 and ?a5.0 = 4000
        and ?b1.0 = 1 and ?b2.0 = 1001 and ?b3.0 = 2001 and ?b4.0 = 3001 and ?b5.0 = 4001
        and t_exists = 5000 and t_ttl = 5001] t
    by (simp add: lookup_def)
  have d: "\<exists>r'. register_failures (?s 3) ?cfg ''alice'' ''10.0.0.1''
               [(0, 1), (1000, 1001), (2000, 2001), (3000, 3001), (4000, 4001)] =
             (r', [Inr 4, Inr 5, Inr 6, Inr 7, Inr 8])
           \<and> ensure_not_locked r' ?cfg ''alice'' ''10.0.0.1'' 5000 5001 =
               Inl (HTTPException 429 ''Too many login attempts. Try again later.''
                      [(''Retry-After'', str_int (max (TTL r' 5001 ?lk) 1))])"
    using register_failure_then_locked [OF fk lk, where r = "?s 3"
        and e = "\<lparr>content = Num 3, expire_at = Some 120000\<rparr>" and k = 3
        and ?a1.0 = 0 and ?a2.0 = 1000 and ?a3.0 = 2000 and ?a4.0 = 3000 and ?a5.0 = 4000
        and ?b1.0 = 1 and ?b2.0 = 1001 and ?b3.0 = 2001 and ?b4.0 = 3001 and ?b5.0 = 4001
        and t_exists = 5000 and t_ttl = 5001]
    by (simp add: lookup_def)
  show ?thesis using a b c d by simp
qed

text \<open>
  Without the window the consequence fails: five failures of the same user from the same
  address, each made after the counter of the one before has expired, all count 1 and set
  no lock, and \<open>ensure_not_locked\<close> returns. So does \<open>ensure_not_locked\<close> once the lock
  that five failures in one window have set has expired.
\<close>

theorem register_failure_spread_counterexample:
  "register_failures Map.empty ex_bf_config ''alice'' ''10.0.0.1''
      [(0, 1), (121000, 121001), (242000, 242001), (363000, 363001), (484000, 484001)] =
     ([''bf:login-sim:fail:alice:10.0.0.1'' \<mapsto> \<lparr>content = Num 1, expire_at = Some 604000\<rparr>],
      [Inr 1, Inr 1, Inr 1, Inr 1, Inr 1])
   \<and> ensure_not_locked
        [''bf:login-sim:fail:alice:10.0.0.1'' \<mapsto> \<lparr>content = Num 1, expire_at = Some 604000\<rparr>]
        ex_bf_config ''alice'' ''10.0.0.1'' 485000 485001 = Inr ()
   \<and> register_failures Map.empty ex_bf_config ''alice'' ''10.0.0.1''
      [(0, 1), (1000, 1001), (2000, 2001), (3000, 3001), (4000, 4001)] =
     ([''bf:login-sim:fail:alice:10.0.0.1'' \<mapsto> \<lparr>content = Num 5, expire_at = Some 120000\<rparr>,
       ''bf:login-sim:lock:alice:10.0.0.1'' \<mapsto> \<lparr>content = Num 1, expire_at = Some 64001\<rparr>],
      [Inr 1, Inr 2, Inr 3, Inr 4, Inr 5])
   \<and> ensure_not_locked
        [''bf:login-sim:fail:alice:10.0.0.1'' \<mapsto> \<lparr>content = Num 5, expire_at = Some 120000\<rparr>,
         ''bf:login-sim:lock:alice:10.0.0.1'' \<mapsto> \<lparr>content = Num 1, expire_at = Some 64001\<rparr>]
        ex_bf_config ''alice'' ''10.0.0.1'' 65000 65001 = Inr ()"
  by (simp add: register_failure_def ensure_not_locked_def incr_with_ttl_def INCR_def EXPIRE_def
      SET_EX_def EXISTS_def TTL_def lookup_def fail_key_def lock_key_def ex_bf_config_def)

text \<open>
  C9. For every user name, address and store, \<open>clear_state\<close> deletes the failure key
  and the lock key, and \<open>ensure_not_locked\<close> on the store it leaves returns without an
  exception, at any clock readings.
\<close>

theorem clear_state_then_not_locked:
  "clear_state r cfg uname ip (fail_key cfg uname ip) = None
   \<and> clear_state r cfg uname ip (lock_key cfg uname ip) = None
   \<and> ensure_not_locked (clear_state r cfg uname ip) cfg uname ip t_exists t_ttl = Inr ()"
  by (simp add: clear_state_def ensure_not_locked_def EXISTS_def lookup_def)

section \<open>Decimal strings\<close>

text \<open>
  \<open>int(str(i)) = i\<close> for every integer: the subject a token carries reads back as the
  user id it was issued for.
\<close>

lemma digit_val_digit_char: "d < 10 \<Longrightarrow> digit_val (digit_char d) = Some d"
  by (simp add: digit_val_def digit_char_def)

lemma digit_char_not_special:
  "digit_char d \<noteq> CHR ''_''" "digit_char d \<noteq> CHR ''-''" "digit_char d \<noteq> CHR ''+''"
  "\<not> is_space (digit_char d)"
  by (simp_all add: digit_char_def is_space_def)

lemma digits_nonempty: "digits n \<noteq> []"
  by (subst digits.simps) simp

lemma hd_digits: "\<exists>d. hd (digits n) = digit_char d"
proof (induction n rule: digits.induct)
  case (1 n)
  show ?case
  proof (cases "n < 10")
    case True
    then show ?thesis by (subst digits.simps) auto
  next
    case False
    then show ?thesis
      using 1 digits_nonempty [of "n div 10"] by (subst digits.simps) (simp add: hd_append)
  qed
qed

lemma last_digits: "last (digits n) = digit_char (n mod 10)"
  by (subst digits.simps) simp

lemma parse_digits_snoc:
  assumes "parse_digits acc xs = Some m" and "d < 10"
  shows "parse_digits acc (xs @ [digit_char d]) = Some (10 * m + d)"
  using assms
proof (induction acc xs rule: parse_digits.induct)
  case (1 acc)
  then show ?case by simp
next
  case (2 acc c)
  then show ?case
    by (auto simp: digit_val_digit_char digit_char_not_special split: option.splits)
next
  case (3 acc c c' cs)
  then show ?case
    by (auto simp: digit_val_digit_char digit_char_not_special split: option.splits if_splits)
qed

lemma parse_digits_digits: "parse_digits 0 (digits n) = Some n"
proof (induction n rule: digits.induct)
  case (1 n)
  show ?case
  proof (cases "n < 10")
    case True
    then show ?thesis by (subst digits.simps) (simp add: digit_val_digit_char)
  next
    case False
    then have "parse_digits 0 (digits (n div 10)) = Some (n div 10)"
      using 1 by simp
    then have "parse_digits 0 (digits (n div 10) @ [digit_char (n mod 10)]) = Some (10 * (n div 10) + n mod 10)"
      by (rule parse_digits_snoc) simp
    then show ?thesis
      using False by (subst digits.simps) simp
  qed
qed

lemma strip_id:
  assumes "s \<noteq> []" and "\<not> is_space (hd s)" and "\<not> is_space (last s)"
  shows "strip s = s"
proof -
  have a: "dropWhile is_space s = s"
    using assms by (cases s) auto
  have b: "dropWhile is_space (rev s) = rev s"
    using assms by (cases "rev s") (auto simp: last_rev hd_rev [symmetric])
  show ?thesis
    by (simp add: strip_def a b)
qed

lemma int_of_str_str_int: "int_of_str (str_int i) = Inr i"
proof (cases "i < 0")
  case True
  let ?ds = "digits (nat (- i))"
  have "strip (CHR ''-'' # ?ds) = CHR ''-'' # ?ds"
    using digits_nonempty [of "nat (- i)"] last_digits [of "nat (- i)"]
      digit_char_not_special(4) [of "nat (- i) mod 10"]
    by (intro strip_id) (simp_all add: is_space_def)
  then show ?thesis
    using True by (simp add: int_of_str_def str_int_def parse_digits_digits)
next
  case False
  let ?ds = "digits (nat i)"
  obtain d where d: "hd ?ds = digit_char d"
    using hd_digits by blast
  obtain c cs where cs: "?ds = c # cs"
    using digits_nonempty [of "nat i"] by (cases ?ds) auto
  have c: "c = digit_char d"
    using d cs by simp
  have "strip ?ds = ?ds"
    using digits_nonempty [of "nat i"] last_digits [of "nat i"] d
      digit_char_not_special(4) [of "nat i mod 10"] digit_char_not_special(4) [of d]
    by (intro strip_id) simp_all
  moreover have "parse_digits 0 (c # cs) = Some (nat i)"
    using parse_digits_digits [of "nat i"] cs by simp
  ultimately show ?thesis
    using False cs c digit_char_not_special(2,3) [of d]
    by (simp add: int_of_str_def str_int_def)
qed

lemma py_int_str_int: "py_int (Some (JStr (str_int i))) = Inr i"
  by (simp add: py_int_def int_of_str_str_int)

section \<open>Properties of the tokens\<close>

lemma decode_access_token:
  "decode_token cfg now (create_access_token cfg t0 j uid rl) =
     (if t0 + 60 * ACCESS_MIN cfg < now then Inl ExpiredSignatureError
      else Inr [(''type'', JStr ''access''), (''sub'', JStr (str_int uid)), (''role'', JStr rl),
                (''iat'', JInt t0), (''exp'', JInt (t0 + 60 * ACCESS_MIN cfg)), (''jti'', JStr j)])"
  by (simp add: decode_token_def create_access_token_def jwt_encode_def jwt_decode_def)

text \<open>
  C5. For every user id and role, an access token issued at \<open>t0\<close> and verified at a
  clock reading \<open>now\<close> (both in whole seconds) that is not past \<open>t0 + 60 * ACCESS_MIN\<close>
  decodes to the claims it was issued with: the type is \<open>access\<close>, the subject is the
  decimal string of the user id and reads back as the user id, and the role is the issued
  role. Verified at a clock reading past \<open>t0 + 60 * ACCESS_MIN\<close> it fails with
  \<open>ExpiredSignatureError\<close>.
\<close>

theorem verify_access_token:
  "(now \<le> t0 + 60 * ACCESS_MIN cfg \<longrightarrow>
      (\<exists>c. decode_token cfg now (create_access_token cfg t0 j uid rl) = Inr c
         \<and> c = [(''type'', JStr ''access''), (''sub'', JStr (str_int uid)), (''role'', JStr rl),
                (''iat'', JInt t0), (''exp'', JInt (t0 + 60 * ACCESS_MIN cfg)), (''jti'', JStr j)]
         \<and> map_of c ''type'' = Some (JStr ''access'')
         \<and> map_of c ''sub'' = Some (JStr (str_int uid))
         \<and> py_int (map_of c ''sub'') = Inr uid
         \<and> map_of c ''role'' = Some (JStr rl)))
   \<and> (t0 + 60 * ACCESS_MIN cfg < now \<longrightarrow>
      decode_token cfg now (create_access_token cfg t0 j uid rl) = Inl ExpiredSignatureError)"
  by (simp add: decode_access_token py_int_str_int)

theorem verify_access_token_witness:
  "decode_token \<lparr>JWT_SECRET = ''dev-secret'', ACCESS_MIN = 15, REFRESH_DAYS = 7\<rparr> 1000899
      (create_access_token \<lparr>JWT_SECRET = ''dev-secret'', ACCESS_MIN = 15, REFRESH_DAYS = 7\<rparr>
         1000000 ''j1'' 7 ''admin'') =
     Inr [(''type'', JStr ''access''), (''sub'', JStr ''7''), (''role'', JStr ''admin''),
          (''iat'', JInt 1000000), (''exp'', JInt 1000900), (''jti'', JStr ''j1'')]
   \<and> decode_token \<lparr>JWT_SECRET = ''dev-secret'', ACCESS_MIN = 15, REFRESH_DAYS = 7\<rparr> 1000901
      (create_access_token \<lparr>JWT_SECRET = ''dev-secret'', ACCESS_MIN = 15, REFRESH_DAYS = 7\<rparr>
         1000000 ''j1'' 7 ''admin'') =
     Inl ExpiredSignatureError"
proof -
  let ?cfg = "\<lparr>JWT_SECRET = ''dev-secret'', ACCESS_MIN = 15, REFRESH_DAYS = 7\<rparr>"
  have s: "str_int 7 = ''7''"
    by (simp add: str_int_def digits.simps digit_char_def)
  have a: "\<exists>c. decode_token ?cfg 1000899 (create_access_token ?cfg 1000000 ''j1'' 7 ''admin'') = Inr c
         \<and> map_of c ''type'' = Some (JStr ''access'')
         \<and> map_of c ''sub'' = Some (JStr (str_int 7))
         \<and> py_int (map_of c ''sub'') = Inr 7
         \<and> map_of c ''role'' = Some (JStr ''admin'')"
    using verify_access_token [of 1000899 1000000 ?cfg "''j1''" 7 "''admin''"] by simp
  have b: "decode_token ?cfg 1000901 (create_access_token ?cfg 1000000 ''j1'' 7 ''admin'') =
             Inl ExpiredSignatureError"
    using verify_access_token [of 1000901 1000000 ?cfg "''j1''" 7 "''admin''"] by simp
  have c: "decode_token ?cfg 1000899 (create_access_token ?cfg 1000000 ''j1'' 7 ''admin'') =
     Inr [(''type'', JStr ''access''), (''sub'', JStr ''7''), (''role'', JStr ''admin''),
          (''iat'', JInt 1000000), (''exp'', JInt 1000900), (''jti'', JStr ''j1'')]"
    using a by (simp add: decode_token_def create_access_token_def jwt_encode_def jwt_decode_def s)
  show ?thesis using b c by simp
qed

section \<open>Properties of the refresh route\<close>

lemma scalar_one_or_none_Some: "scalar_one_or_none rows = Inr (Some x) \<longleftrightarrow> rows = [x]"
  by (auto simp: scalar_one_or_none_def split: list.splits)

lemma scalar_one_or_none_None: "scalar_one_or_none rows = Inr None \<longleftrightarrow> rows = []"
  by (auto simp: scalar_one_or_none_def split: list.splits)

lemma decode_token_later:
  assumes "decode_token cfg now1 tok = Inr c"
  shows "decode_token cfg now2 tok = Inr c \<or> decode_token cfg now2 tok = Inl ExpiredSignatureError"
  using assms
  by (auto simp: decode_token_def jwt_decode_def split: token.splits option.splits jval.splits if_splits)

lemma refresh_token_lookup_Inr:
  assumes "refresh_token_lookup cfg now tok d = Inr (rt, uid)"
  shows "\<exists>c j. decode_token cfg now tok = Inr c \<and> map_of c ''type'' = Some (JStr ''refresh'')
           \<and> py_int (map_of c ''sub'') = Inr uid \<and> map_of c ''jti'' = Some (JStr j)
           \<and> filter (\<lambda>row. jti row = j) (refresh_tokens d) = [rt] \<and> \<not> revoked rt"
  using assms
  by (auto simp: refresh_token_lookup_def scalar_one_or_none_Some
      split: sum.splits option.splits jval.splits if_splits)

lemma refresh_token_lookup_revoked:
  assumes "decode_token cfg now tok = Inr c" and "map_of c ''type'' = Some (JStr ''refresh'')"
    and "py_int (map_of c ''sub'') = Inr uid" and "map_of c ''jti'' = Some (JStr j)"
    and "filter (\<lambda>row. jti row = j) (refresh_tokens d) = [rt]" and "revoked rt"
  shows "refresh_token_lookup cfg now tok d =
           Inl (HTTPException 401 ''Refresh token revoked or unknown'' [])"
  using assms by (simp add: refresh_token_lookup_def scalar_one_or_none_def)

lemma refresh_token_lookup_expired:
  assumes "decode_token cfg now tok = Inl e"
  shows "refresh_token_lookup cfg now tok d =
           Inl (HTTPException 401 ''Invalid or expired refresh token'' [])"
  using assms by (simp add: refresh_token_lookup_def)

lemma filter_jti_revoke:
  "filter (\<lambda>row. jti row = j)
       (map (\<lambda>row. if jti row = k then row\<lparr>revoked := True\<rparr> else row) xs) =
     map (\<lambda>row. if jti row = k then row\<lparr>revoked := True\<rparr> else row)
       (filter (\<lambda>row. jti row = j) xs)"
  by (induction xs) auto

lemma filter_revoke_row:
  assumes "filter (\<lambda>row. jti row = j) (refresh_tokens d) = [rt]"
  shows "filter (\<lambda>row. jti row = j) (refresh_tokens (revoke_row d rt)) = [rt\<lparr>revoked := True\<rparr>]"
  using assms by (simp add: revoke_row_def filter_jti_revoke)

lemma refresh_token_rotate_Inr:
  assumes "refresh_token_rotate cfg now ja jr rt uid d = (d2, Inr pair)"
  shows "\<exists>row. d2 = (revoke_row d rt)\<lparr>refresh_tokens := refresh_tokens (revoke_row d rt) @ [row]\<rparr>
           \<and> jti row \<notin> set (map jti (refresh_tokens (revoke_row d rt)))"
  using assms
  by (auto simp: refresh_token_rotate_def add_refresh_token_def Let_def
      split: sum.splits option.splits jval.splits if_splits prod.splits)

lemma refresh_token_rotate_no_user:
  assumes "filter (\<lambda>u. id' u = uid) (users d) = []"
  shows "refresh_token_rotate cfg now ja jr rt uid d =
           (revoke_row d rt, Inl (HTTPException 401 ''User not found'' []))"
  using assms by (simp add: refresh_token_rotate_def revoke_row_def scalar_one_or_none_def)

lemma refresh_token_Inr:
  assumes "refresh_token cfg now ja jr tok d = (d1, Inr pair)"
  shows "\<exists>rt uid. refresh_token_lookup cfg now tok d = Inr (rt, uid)
           \<and> refresh_token_rotate cfg now ja jr rt uid d = (d1, Inr pair)"
  using assms by (auto simp: refresh_token_def split: sum.splits prod.splits)

lemma rotated_row_revoked:
  assumes sel: "filter (\<lambda>row. jti row = j) (refresh_tokens d) = [rt]"
    and rot: "refresh_token_rotate cfg now ja jr rt uid d = (d1, Inr pair)"
  shows "filter (\<lambda>row. jti row = j) (refresh_tokens d1) = [rt\<lparr>revoked := True\<rparr>]"
proof -
  let ?d' = "revoke_row d rt"
  obtain row where d1: "d1 = ?d'\<lparr>refresh_tokens := refresh_tokens ?d' @ [row]\<rparr>"
    and fresh: "jti row \<notin> set (map jti (refresh_tokens ?d'))"
    using refresh_token_rotate_Inr [OF rot] by blast
  have old: "filter (\<lambda>row. jti row = j) (refresh_tokens ?d') = [rt\<lparr>revoked := True\<rparr>]"
    using filter_revoke_row [OF sel] .
  have "rt\<lparr>revoked := True\<rparr> \<in> set (filter (\<lambda>row. jti row = j) (refresh_tokens ?d'))"
    by (simp add: old)
  then have mem: "rt\<lparr>revoked := True\<rparr> \<in> set (refresh_tokens ?d')"
    and jrt: "jti rt = j"
    by simp_all
  have "jti (rt\<lparr>revoked := True\<rparr>) \<in> jti ` set (refresh_tokens ?d')"
    using mem by (rule imageI)
  then have "j \<in> set (map jti (refresh_tokens ?d'))"
    using jrt by simp
  then have "jti row \<noteq> j"
    using fresh by auto
  then show ?thesis
    using old d1 by simp
qed

lemma replay_rejected:
  assumes dec: "decode_token cfg now1 tok = Inr c" and ty: "map_of c ''type'' = Some (JStr ''refresh'')"
    and sub: "py_int (map_of c ''sub'') = Inr uid" and j: "map_of c ''jti'' = Some (JStr j)"
    and sel: "filter (\<lambda>row. jti row = j) (refresh_tokens d1) = [rt']" and rev: "revoked rt'"
  shows "(\<exists>detail. refresh_token cfg now2 ja2 jr2 tok d1 = (d1, Inl (HTTPException 401 detail [])))
       \<and> (decode_token cfg now2 tok \<noteq> Inl ExpiredSignatureError \<longrightarrow>
            refresh_token cfg now2 ja2 jr2 tok d1 =
              (d1, Inl (HTTPException 401 ''Refresh token revoked or unknown'' [])))"
proof -
  consider (ok) "decode_token cfg now2 tok = Inr c"
    | (expired) "decode_token cfg now2 tok = Inl ExpiredSignatureError"
    using decode_token_later [OF dec] by blast
  then show ?thesis
  proof cases
    case ok
    then have "refresh_token_lookup cfg now2 tok d1 =
                 Inl (HTTPException 401 ''Refresh token revoked or unknown'' [])"
      using refresh_token_lookup_revoked [OF _ ty sub j sel rev] by simp
    then show ?thesis
      by (simp add: refresh_token_def)
  next
    case expired
    then have "refresh_token_lookup cfg now2 tok d1 =
                 Inl (HTTPException 401 ''Invalid or expired refresh token'' [])"
      by (rule refresh_token_lookup_expired)
    then show ?thesis
      using expired by (simp add: refresh_token_def)
  qed
qed

text \<open>
  The definitions a worked example unfolds.
\<close>

lemmas route_eval =
  refresh_token_def refresh_token_lookup_def refresh_token_rotate_def login_def decode_token_def
  jwt_decode_def jwt_encode_def create_refresh_token_def create_access_token_def JWT_ALG_def
  py_int_def int_of_str_def strip_def is_space_def digit_val_def scalar_one_or_none_def
  revoke_row_def add_refresh_token_def str_int_def digits.simps digit_char_def Let_def
  ex_settings_def ex_alice_def ex_verify_def ex_token_def ex_row_def ex_pair_def
  ex_orphan_token_def

text \<open>
  C1. For every refresh token: after a call of \<open>refresh_token\<close> that presented it and
  returned a token pair, a second call presenting the same token, at any clock reading and
  with any fresh identifiers, raises an \<open>HTTPException\<close> with status 401 and leaves the
  store as it is. While the token has not expired the detail is
  \<open>Refresh token revoked or unknown\<close>; once it has expired the detail is
  \<open>Invalid or expired refresh token\<close>, the token being decoded before its row is looked
  up. The first call found exactly one row for the token's \<open>jti\<close>, not revoked, and the
  store it leaves holds that row with \<open>revoked = True\<close>.
\<close>

theorem refresh_token_replay:
  assumes "refresh_token cfg now1 ja1 jr1 tok d = (d1, Inr pair)"
  shows "(\<exists>detail. refresh_token cfg now2 ja2 jr2 tok d1 = (d1, Inl (HTTPException 401 detail [])))
       \<and> (decode_token cfg now2 tok \<noteq> Inl ExpiredSignatureError \<longrightarrow>
            refresh_token cfg now2 ja2 jr2 tok d1 =
              (d1, Inl (HTTPException 401 ''Refresh token revoked or unknown'' [])))
       \<and> (decode_token cfg now2 tok = Inl ExpiredSignatureError \<longrightarrow>
            refresh_token cfg now2 ja2 jr2 tok d1 =
              (d1, Inl (HTTPException 401 ''Invalid or expired refresh token'' [])))
       \<and> (\<exists>c rt. decode_token cfg now1 tok = Inr c \<and> map_of c ''jti'' = Some (JStr (jti rt))
            \<and> filter (\<lambda>row. jti row = jti rt) (refresh_tokens d) = [rt] \<and> \<not> revoked rt
            \<and> filter (\<lambda>row. jti row = jti rt) (refresh_tokens d1) = [rt\<lparr>revoked := True\<rparr>])"
proof -
  obtain rt uid where look: "refresh_token_lookup cfg now1 tok d = Inr (rt, uid)"
    and rot: "refresh_token_rotate cfg now1 ja1 jr1 rt uid d = (d1, Inr pair)"
    using refresh_token_Inr [OF assms] by blast
  obtain c j where dec: "decode_token cfg now1 tok = Inr c"
    and ty: "map_of c ''type'' = Some (JStr ''refresh'')"
    and sub: "py_int (map_of c ''sub'') = Inr uid" and j: "map_of c ''jti'' = Some (JStr j)"
    and sel: "filter (\<lambda>row. jti row = j) (refresh_tokens d) = [rt]" and live: "\<not> revoked rt"
    using refresh_token_lookup_Inr [OF look] by blast
  have "rt \<in> set (filter (\<lambda>row. jti row = j) (refresh_tokens d))"
    using sel by simp
  then have jrt: "jti rt = j" by simp
  have sel1: "filter (\<lambda>row. jti row = j) (refresh_tokens d1) = [rt\<lparr>revoked := True\<rparr>]"
    using rotated_row_revoked [OF sel rot] .
  have "(\<exists>detail. refresh_token cfg now2 ja2 jr2 tok d1 = (d1, Inl (HTTPException 401 detail [])))
       \<and> (decode_token cfg now2 tok \<noteq> Inl ExpiredSignatureError \<longrightarrow>
            refresh_token cfg now2 ja2 jr2 tok d1 =
              (d1, Inl (HTTPException 401 ''Refresh token revoked or unknown'' [])))"
    using replay_rejected [OF dec ty sub j sel1] by simp
  moreover have "\<exists>c rt. decode_token cfg now1 tok = Inr c \<and> map_of c ''jti'' = Some (JStr (jti rt))
            \<and> filter (\<lambda>row. jti row = jti rt) (refresh_tokens d) = [rt] \<and> \<not> revoked rt
            \<and> filter (\<lambda>row. jti row = jti rt) (refresh_tokens d1) = [rt\<lparr>revoked := True\<rparr>]"
    using dec j sel live sel1 jrt by blast
  moreover have "decode_token cfg now2 tok = Inl ExpiredSignatureError \<longrightarrow>
            refresh_token cfg now2 ja2 jr2 tok d1 =
              (d1, Inl (HTTPException 401 ''Invalid or expired refresh token'' []))"
    using refresh_token_lookup_expired [of cfg now2 tok ExpiredSignatureError d1]
    by (simp add: refresh_token_def)
  ultimately show ?thesis by blast
qed

theorem refresh_token_replay_witness:
  "refresh_token ex_settings 1000100 ''a1'' ''r1'' ex_token
      \<lparr>users = [ex_alice], refresh_tokens = [ex_row False]\<rparr> =
     (\<lparr>users = [ex_alice],
        refresh_tokens = [ex_row True,
          \<lparr>jti = ''r1'', user_id = 1, expires_at = 1604900, revoked = False\<rparr>]\<rparr>,
      Inr (ex_pair 1000100 ''a1'' ''r1''))
   \<and> refresh_token ex_settings 1000200 ''a2'' ''r2'' ex_token
      \<lparr>users = [ex_alice],
        refresh_tokens = [ex_row True,
          \<lparr>jti = ''r1'', user_id = 1, expires_at = 1604900, revoked = False\<rparr>]\<rparr> =
     (\<lparr>users = [ex_alice],
        refresh_tokens = [ex_row True,
          \<lparr>jti = ''r1'', user_id = 1, expires_at = 1604900, revoked = False\<rparr>]\<rparr>,
      Inl (HTTPException 401 ''Refresh token revoked or unknown'' []))"
proof -
  let ?d0 = "\<lparr>users = [ex_alice], refresh_tokens = [ex_row False]\<rparr>"
  let ?d1 = "\<lparr>users = [ex_alice],
        refresh_tokens = [ex_row True,
          \<lparr>jti = ''r1'', user_id = 1, expires_at = 1604900, revoked = False\<rparr>]\<rparr>"
  have first: "refresh_token ex_settings 1000100 ''a1'' ''r1'' ex_token ?d0 =
                 (?d1, Inr (ex_pair 1000100 ''a1'' ''r1''))"
    by (simp add: route_eval)
  have live: "decode_token ex_settings 1000200 ex_token \<noteq> Inl ExpiredSignatureError"
    by (simp add: route_eval)
  show ?thesis
    using refresh_token_replay [OF first, of 1000200 "''a2''" "''r2''"] first live by simp
qed

text \<open>
  A second call made after the token's expiry is not answered \<open>revoked or unknown\<close>: the
  token of the example expires at 1604800 and is presented again at 1604801.
\<close>

theorem refresh_token_replay_expired_counterexample:
  "refresh_token ex_settings 1000100 ''a1'' ''r1'' ex_token
      \<lparr>users = [ex_alice], refresh_tokens = [ex_row False]\<rparr> =
     (\<lparr>users = [ex_alice],
        refresh_tokens = [ex_row True,
          \<lparr>jti = ''r1'', user_id = 1, expires_at = 1604900, revoked = False\<rparr>]\<rparr>,
      Inr (ex_pair 1000100 ''a1'' ''r1''))
   \<and> refresh_token ex_settings 1604801 ''a2'' ''r2'' ex_token
      \<lparr>users = [ex_alice],
        refresh_tokens = [ex_row True,
          \<lparr>jti = ''r1'', user_id = 1, expires_at = 1604900, revoked = False\<rparr>]\<rparr> =
     (\<lparr>users = [ex_alice],
        refresh_tokens = [ex_row True,
          \<lparr>jti = ''r1'', user_id = 1, expires_at = 1604900, revoked = False\<rparr>]\<rparr>,
      Inl (HTTPException 401 ''Invalid or expired refresh token'' []))
   \<and> HTTPException 401 ''Invalid or expired refresh token'' [] \<noteq>
       HTTPException 401 ''Refresh token revoked or unknown'' []"
  by (simp add: route_eval)

text \<open>
  C10. When \<open>refresh_token\<close> is presented a refresh token that passes the checks of its
  first part (well formed, not expired, its row found and not revoked) and no user has
  the id of its subject, the call raises status 401 with the detail \<open>User not found\<close>,
  and the store it leaves already holds the token's row revoked. Presenting the same
  token again, at any clock reading, raises status 401 and leaves that store as it is:
  with the detail \<open>Refresh token revoked or unknown\<close> while the token has not expired,
  and with the detail \<open>Invalid or expired refresh token\<close> once it has.
\<close>

theorem refresh_token_user_missing:
  assumes look: "refresh_token_lookup cfg now tok d = Inr (rt, uid)"
    and nouser: "filter (\<lambda>u. id' u = uid) (users d) = []"
  shows "refresh_token cfg now ja jr tok d =
           (revoke_row d rt, Inl (HTTPException 401 ''User not found'' []))
       \<and> filter (\<lambda>row. jti row = jti rt) (refresh_tokens d) = [rt] \<and> \<not> revoked rt
       \<and> filter (\<lambda>row. jti row = jti rt) (refresh_tokens (revoke_row d rt)) = [rt\<lparr>revoked := True\<rparr>]
       \<and> (\<exists>detail. refresh_token cfg now2 ja2 jr2 tok (revoke_row d rt) =
              (revoke_row d rt, Inl (HTTPException 401 detail [])))
       \<and> (decode_token cfg now2 tok \<noteq> Inl ExpiredSignatureError \<longrightarrow>
            refresh_token cfg now2 ja2 jr2 tok (revoke_row d rt) =
              (revoke_row d rt, Inl (HTTPException 401 ''Refresh token revoked or unknown'' [])))
       \<and> (decode_token cfg now2 tok = Inl ExpiredSignatureError \<longrightarrow>
            refresh_token cfg now2 ja2 jr2 tok (revoke_row d rt) =
              (revoke_row d rt, Inl (HTTPException 401 ''Invalid or expired refresh token'' [])))"
proof -
  obtain c j where dec: "decode_token cfg now tok = Inr c"
    and ty: "map_of c ''type'' = Some (JStr ''refresh'')"
    and sub: "py_int (map_of c ''sub'') = Inr uid" and j: "map_of c ''jti'' = Some (JStr j)"
    and sel: "filter (\<lambda>row. jti row = j) (refresh_tokens d) = [rt]" and live: "\<not> revoked rt"
    using refresh_token_lookup_Inr [OF look] by blast
  have "rt \<in> set (filter (\<lambda>row. jti row = j) (refresh_tokens d))"
    using sel by simp
  then have jrt: "jti rt = j" by simp
  have sel1: "filter (\<lambda>row. jti row = j) (refresh_tokens (revoke_row d rt)) = [rt\<lparr>revoked := True\<rparr>]"
    using filter_revoke_row [OF sel] .
  have first: "refresh_token cfg now ja jr tok d =
                 (revoke_row d rt, Inl (HTTPException 401 ''User not found'' []))"
    using look refresh_token_rotate_no_user [OF nouser] by (simp add: refresh_token_def)
  have again: "(\<exists>detail. refresh_token cfg now2 ja2 jr2 tok (revoke_row d rt) =
              (revoke_row d rt, Inl (HTTPException 401 detail [])))
       \<and> (decode_token cfg now2 tok \<noteq> Inl ExpiredSignatureError \<longrightarrow>
            refresh_token cfg now2 ja2 jr2 tok (revoke_row d rt) =
              (revoke_row d rt, Inl (HTTPException 401 ''Refresh token revoked or unknown'' [])))"
    using replay_rejected [OF dec ty sub j sel1] by simp
  have late: "decode_token cfg now2 tok = Inl ExpiredSignatureError \<longrightarrow>
            refresh_token cfg now2 ja2 jr2 tok (revoke_row d rt) =
              (revoke_row d rt, Inl (HTTPException 401 ''Invalid or expired refresh token'' []))"
    using refresh_token_lookup_expired [of cfg now2 tok ExpiredSignatureError "revoke_row d rt"]
    by (simp add: refresh_token_def)
  show ?thesis
    using first sel live sel1 again late jrt by simp
qed

theorem refresh_token_user_missing_witness:
  "refresh_token ex_settings 1000100 ''a1'' ''r1'' ex_orphan_token
      \<lparr>users = [ex_alice], refresh_tokens = [ex_row False]\<rparr> =
     (\<lparr>users = [ex_alice], refresh_tokens = [ex_row True]\<rparr>,
      Inl (HTTPException 401 ''User not found'' []))
   \<and> refresh_token ex_settings 1000200 ''a2'' ''r2'' ex_orphan_token
      \<lparr>users = [ex_alice], refresh_tokens = [ex_row True]\<rparr> =
     (\<lparr>users = [ex_alice], refresh_tokens = [ex_row True]\<rparr>,
      Inl (HTTPException 401 ''Refresh token revoked or unknown'' []))
   \<and> refresh_token ex_settings 1604801 ''a2'' ''r2'' ex_orphan_token
      \<lparr>users = [ex_alice], refresh_tokens = [ex_row True]\<rparr> =
     (\<lparr>users = [ex_alice], refresh_tokens = [ex_row True]\<rparr>,
      Inl (HTTPException 401 ''Invalid or expired refresh token'' []))"
proof -
  let ?d = "\<lparr>users = [ex_alice], refresh_tokens = [ex_row False]\<rparr>"
  let ?d1 = "\<lparr>users = [ex_alice], refresh_tokens = [ex_row True]\<rparr>"
  have look: "refresh_token_lookup ex_settings 1000100 ex_orphan_token ?d = Inr (ex_row False, 2)"
    by (simp add: route_eval)
  have nouser: "filter (\<lambda>u. id' u = 2) (users ?d) = []"
    by (simp add: ex_alice_def)
  have live: "decode_token ex_settings 1000200 ex_orphan_token \<noteq> Inl ExpiredSignatureError"
    by (simp add: route_eval)
  have late: "decode_token ex_settings 1604801 ex_orphan_token = Inl ExpiredSignatureError"
    by (simp add: route_eval)
  have rev: "revoke_row ?d (ex_row False) = ?d1"
    by (simp add: revoke_row_def ex_row_def)
  have a: "refresh_token ex_settings 1000100 ''a1'' ''r1'' ex_orphan_token ?d =
             (?d1, Inl (HTTPException 401 ''User not found'' []))
           \<and> refresh_token ex_settings 1000200 ''a2'' ''r2'' ex_orphan_token ?d1 =
             (?d1, Inl (HTTPException 401 ''Refresh token revoked or unknown'' []))"
    using refresh_token_user_missing [OF look nouser, of "''a1''" "''r1''" 1000200 "''a2''" "''r2''"]
      live rev by simp
  have b: "refresh_token ex_settings 1604801 ''a2'' ''r2'' ex_orphan_token ?d1 =
             (?d1, Inl (HTTPException 401 ''Invalid or expired refresh token'' []))"
    using refresh_token_user_missing [OF look nouser, of "''a1''" "''r1''" 1604801 "''a2''" "''r2''"]
      late rev by simp
  show ?thesis using a b by simp
qed

text \<open>
  A retry made after the token's expiry is not answered \<open>revoked or unknown\<close>: the token
  of the example expires at 1604800; it is first presented at 1000100, where the user is
  not found, and again at 1604801.
\<close>

theorem refresh_token_user_missing_retry_expired_counterexample:
  "refresh_token ex_settings 1000100 ''a1'' ''r1'' ex_orphan_token
      \<lparr>users = [ex_alice], refresh_tokens = [ex_row False]\<rparr> =
     (\<lparr>users = [ex_alice], refresh_tokens = [ex_row True]\<rparr>,
      Inl (HTTPException 401 ''User not found'' []))
   \<and> refresh_token ex_settings 1604801 ''a2'' ''r2'' ex_orphan_token
      \<lparr>users = [ex_alice], refresh_tokens = [ex_row True]\<rparr> =
     (\<lparr>users = [ex_alice], refresh_tokens = [ex_row True]\<rparr>,
      Inl (HTTPException 401 ''Invalid or expired refresh token'' []))
   \<and> HTTPException 401 ''Invalid or expired refresh token'' [] \<noteq>
       HTTPException 401 ''Refresh token revoked or unknown'' []"
  by (simp add: route_eval)

text \<open>
  C6. Two requests that present the same refresh token, not yet revoked, and whose first
  parts both run before either second part: both first parts find the row not revoked,
  and both second parts succeed, each returning a token pair.
\<close>

theorem refresh_token_race:
  "refresh_token_lookup ex_settings 1000100 ex_token
      \<lparr>users = [ex_alice], refresh_tokens = [ex_row False]\<rparr> = Inr (ex_row False, 1)
   \<and> refresh_token_lookup ex_settings 1000101 ex_token
      \<lparr>users = [ex_alice], refresh_tokens = [ex_row False]\<rparr> = Inr (ex_row False, 1)
   \<and> refresh_token_rotate ex_settings 1000100 ''a1'' ''r1'' (ex_row False) 1
      \<lparr>users = [ex_alice], refresh_tokens = [ex_row False]\<rparr> =
       (\<lparr>users = [ex_alice],
          refresh_tokens = [ex_row True,
            \<lparr>jti = ''r1'', user_id = 1, expires_at = 1604900, revoked = False\<rparr>]\<rparr>,
        Inr (ex_pair 1000100 ''a1'' ''r1''))
   \<and> refresh_token_rotate ex_settings 1000101 ''a2'' ''r2'' (ex_row False) 1
      \<lparr>users = [ex_alice],
          refresh_tokens = [ex_row True,
            \<lparr>jti = ''r1'', user_id = 1, expires_at = 1604900, revoked = False\<rparr>]\<rparr> =
       (\<lparr>users = [ex_alice],
          refresh_tokens = [ex_row True,
            \<lparr>jti = ''r1'', user_id = 1, expires_at = 1604900, revoked = False\<rparr>,
            \<lparr>jti = ''r2'', user_id = 1, expires_at = 1604901, revoked = False\<rparr>]\<rparr>,
        Inr (ex_pair 1000101 ''a2'' ''r2''))"
  by (simp add: route_eval)

section \<open>Properties of the login route\<close>

text \<open>
  C8. A login with a user name no row has, and a login with the name of a user and a
  password the check refuses, both raise an \<open>HTTPException\<close> with status 401, the detail
  \<open>Invalid credentials\<close> and no headers, and leave the store as it is: the two responses
  are equal.
\<close>

theorem login_failure_generic:
  "(filter (\<lambda>u. username u = name1) (users d1) = [] \<longrightarrow>
      login cfg verify_password now1 ja1 jr1 name1 pw1 d1 =
        (d1, Inl (HTTPException 401 ''Invalid credentials'' [])))
   \<and> (filter (\<lambda>u. username u = name2) (users d2) = [user] \<and> \<not> verify_password pw2 (password_hash user) \<longrightarrow>
      login cfg verify_password now2 ja2 jr2 name2 pw2 d2 =
        (d2, Inl (HTTPException 401 ''Invalid credentials'' [])))
   \<and> (filter (\<lambda>u. username u = name1) (users d1) = []
        \<and> filter (\<lambda>u. username u = name2) (users d2) = [user]
        \<and> \<not> verify_password pw2 (password_hash user) \<longrightarrow>
      snd (login cfg verify_password now1 ja1 jr1 name1 pw1 d1) =
        snd (login cfg verify_password now2 ja2 jr2 name2 pw2 d2))"
  by (simp add: login_def scalar_one_or_none_def)


theorem login_failure_generic_witness:
  "login ex_settings ex_verify 1000000 ''a1'' ''r1'' ''mallory'' ''alice12345''
      \<lparr>users = [ex_alice], refresh_tokens = []\<rparr> =
     (\<lparr>users = [ex_alice], refresh_tokens = []\<rparr>,
      Inl (HTTPException 401 ''Invalid credentials'' []))
   \<and> login ex_settings ex_verify 1000000 ''a1'' ''r1'' ''alice'' ''wrong-password''
      \<lparr>users = [ex_alice], refresh_tokens = []\<rparr> =
     (\<lparr>users = [ex_alice], refresh_tokens = []\<rparr>,
      Inl (HTTPException 401 ''Invalid credentials'' []))"
proof -
  let ?d = "\<lparr>users = [ex_alice], refresh_tokens = []\<rparr>"
  have a: "filter (\<lambda>u. username u = ''mallory'') (users ?d) = []"
    by (simp add: ex_alice_def)
  have b: "filter (\<lambda>u. username u = ''alice'') (users ?d) = [ex_alice]"
    by (simp add: ex_alice_def)
  have c: "\<not> ex_verify ''wrong-password'' (password_hash ex_alice)"
    by (simp add: ex_alice_def ex_verify_def)
  show ?thesis
    using login_failure_generic [where ?name1.0 = "''mallory''" and ?d1.0 = ?d and ?name2.0 = "''alice''"
        and ?d2.0 = ?d and user = ex_alice and verify_password = ex_verify
        and ?pw2.0 = "''wrong-password''" and cfg = ex_settings and ?now1.0 = 1000000
        and ?now2.0 = 1000000 and ?ja1.0 = "''a1''" and ?jr1.0 = "''r1''" and ?ja2.0 = "''a1''"
        and ?jr2.0 = "''r1''" and ?pw1.0 = "''alice12345''"] a b c
    by simp
qed

end
